theory Spec2Isabelle
  imports Main "HOL-Library.Word"
begin

unbundle bit_operations_syntax

section \<open>JavaScript values and \<open>JSON.stringify\<close>\<close>

text \<open>
  The values that travel through the program are JSON documents: the request bodies
  parsed by \<open>express.json()\<close>, the object literals the handlers and the collector build,
  and what the browser returns for a property read. \<open>JUndefined\<close> is JavaScript's
  \<open>undefined\<close> (a missing property). Numbers are restricted to integers; strings are
  sequences of 8-bit characters (code points below 256). An object is the list of its
  own properties in property order, with distinct keys.
\<close>

datatype json =
    JUndefined
  | JNull
  | JBool bool
  | JNum int
  | JStr string
  | JArr "json list"
  | JObj "(string \<times> json) list"

definition hex_digit :: "nat \<Rightarrow> char" where
  "hex_digit n = ''0123456789abcdef'' ! (n mod 16)"

definition dec_digit :: "nat \<Rightarrow> char" where
  "dec_digit n = ''0123456789'' ! (n mod 10)"

fun show_nat :: "nat \<Rightarrow> string" where
  "show_nat n = (if n < 10 then [dec_digit n] else show_nat (n div 10) @ [dec_digit n])"

declare show_nat.simps [simp del]

definition show_int :: "int \<Rightarrow> string" where
  "show_int i = (if i < 0 then CHR ''-'' # show_nat (nat (- i)) else show_nat (nat i))"

text \<open>\<open>QuoteJSONString\<close> of ECMA-262: the two-character escapes, \<open>\u00xx\<close> for the
  other control characters, every other character as it is.\<close>

definition escape_char :: "char \<Rightarrow> string" where
  "escape_char c =
     (let n = (of_char c :: nat) in
      if c = CHR 0x22 then [CHR 0x5C, CHR 0x22]
      else if c = CHR 0x5C then [CHR 0x5C, CHR 0x5C]
      else if n = 8 then [CHR 0x5C, CHR ''b'']
      else if n = 12 then [CHR 0x5C, CHR ''f'']
      else if n = 10 then [CHR 0x5C, CHR ''n'']
      else if n = 13 then [CHR 0x5C, CHR ''r'']
      else if n = 9 then [CHR 0x5C, CHR ''t'']
      else if n < 32 then [CHR 0x5C, CHR ''u'', CHR ''0'', CHR ''0'', hex_digit (n div 16), hex_digit n]
      else [c])"

definition quote :: "string \<Rightarrow> string" where
  "quote s = CHR 0x22 # concat (map escape_char s) @ [CHR 0x22]"

fun join :: "string \<Rightarrow> string list \<Rightarrow> string" where
  "join sep [] = []"
| "join sep [x] = x"
| "join sep (x # y # ys) = x @ sep @ join sep (y # ys)"

text \<open>
  \<open>SerializeJSONProperty\<close>: \<open>ser v\<close> is \<open>None\<close> where JavaScript yields \<open>undefined\<close>.
  A property whose value is \<open>undefined\<close> is left out of an object; an \<open>undefined\<close>
  element of an array is written \<open>null\<close>.
\<close>

fun ser :: "json \<Rightarrow> string option"
  and ser_elems :: "json list \<Rightarrow> string list"
  and ser_props :: "(string \<times> json) list \<Rightarrow> string list" where
  "ser JUndefined = None"
| "ser JNull = Some ''null''"
| "ser (JBool b) = Some (if b then ''true'' else ''false'')"
| "ser (JNum i) = Some (show_int i)"
| "ser (JStr s) = Some (quote s)"
| "ser (JArr vs) = Some (''['' @ join '','' (ser_elems vs) @ '']'')"
| "ser (JObj ps) = Some (''{'' @ join '','' (ser_props ps) @ ''}'')"
| "ser_elems [] = []"
| "ser_elems (v # vs) = (case ser v of None \<Rightarrow> ''null'' | Some s \<Rightarrow> s) # ser_elems vs"
| "ser_props [] = []"
| "ser_props ((k, v) # ps) =
     (case ser v of None \<Rightarrow> ser_props ps | Some s \<Rightarrow> (quote k @ '':'' @ s) # ser_props ps)"

definition JSON_stringify :: "json \<Rightarrow> string option" where
  "JSON_stringify v = ser v"

section \<open>SHA-256 as \<open>crypto.createHash('sha256').update(s).digest('hex')\<close> computes it\<close>

text \<open>\<open>hash.update(s)\<close> hashes the UTF-8 encoding of the string.\<close>

definition utf8_char :: "char \<Rightarrow> 8 word list" where
  "utf8_char c =
     (let n = (of_char c :: nat) in
      if n < 128 then [of_nat n] else [of_nat (192 + n div 64), of_nat (128 + n mod 64)])"

definition utf8 :: "string \<Rightarrow> 8 word list" where
  "utf8 s = concat (map utf8_char s)"

definition rotr :: "nat \<Rightarrow> 32 word \<Rightarrow> 32 word" where
  "rotr n w = drop_bit n w OR push_bit (32 - n) w"

definition Ch :: "32 word \<Rightarrow> 32 word \<Rightarrow> 32 word \<Rightarrow> 32 word" where
  "Ch x y z = (x AND y) XOR (NOT x AND z)"

definition Maj :: "32 word \<Rightarrow> 32 word \<Rightarrow> 32 word \<Rightarrow> 32 word" where
  "Maj x y z = (x AND y) XOR (x AND z) XOR (y AND z)"

definition Sigma0 :: "32 word \<Rightarrow> 32 word" where
  "Sigma0 x = rotr 2 x XOR rotr 13 x XOR rotr 22 x"

definition Sigma1 :: "32 word \<Rightarrow> 32 word" where
  "Sigma1 x = rotr 6 x XOR rotr 11 x XOR rotr 25 x"

definition sigma0 :: "32 word \<Rightarrow> 32 word" where
  "sigma0 x = rotr 7 x XOR rotr 18 x XOR drop_bit 3 x"

definition sigma1 :: "32 word \<Rightarrow> 32 word" where
  "sigma1 x = rotr 17 x XOR rotr 19 x XOR drop_bit 10 x"

definition round_constants :: "32 word list" where
  "round_constants =
    [1116352408, 1899447441, 3049323471, 3921009573, 961987163, 1508970993, 2453635748,
     2870763221, 3624381080, 310598401, 607225278, 1426881987, 1925078388, 2162078206,
     2614888103, 3248222580, 3835390401, 4022224774, 264347078, 604807628, 770255983,
     1249150122, 1555081692, 1996064986, 2554220882, 2821834349, 2952996808, 3210313671,
     3336571891, 3584528711, 113926993, 338241895, 666307205, 773529912, 1294757372,
     1396182291, 1695183700, 1986661051, 2177026350, 2456956037, 2730485921, 2820302411,
     3259730800, 3345764771, 3516065817, 3600352804, 4094571909, 275423344, 430227734,
     506948616, 659060556, 883997877, 958139571, 1322822218, 1537002063, 1747873779,
     1955562222, 2024104815, 2227730452, 2361852424, 2428436474, 2756734187, 3204031479,
     3329325298]"

definition initial_hash :: "32 word list" where
  "initial_hash =
    [1779033703, 3144134277, 1013904242, 2773480762, 1359893119, 2600822924, 528734635,
     1541459225]"

text \<open>Padding: the byte \<open>0x80\<close>, zero bytes up to 56 modulo 64, the bit length in 8 bytes.\<close>

definition length_bytes :: "nat \<Rightarrow> 8 word list" where
  "length_bytes l =
     map (\<lambda>i. ucast (drop_bit (8 * (7 - i)) (of_nat (8 * l) :: 64 word))) [0..<8]"

definition pad :: "8 word list \<Rightarrow> 8 word list" where
  "pad m =
     (let l = length m; z = (119 - l mod 64) mod 64
      in m @ [128] @ replicate z 0 @ length_bytes l)"

fun be_words :: "8 word list \<Rightarrow> 32 word list" where
  "be_words (a # b # c # d # bs) =
     (push_bit 24 (ucast a) OR push_bit 16 (ucast b) OR push_bit 8 (ucast c) OR ucast d)
       # be_words bs"
| "be_words _ = []"

fun blocks :: "nat \<Rightarrow> 32 word list \<Rightarrow> 32 word list list" where
  "blocks 0 ws = []"
| "blocks (Suc n) ws = take 16 ws # blocks n (drop 16 ws)"

fun schedule :: "nat \<Rightarrow> 32 word list \<Rightarrow> 32 word list" where
  "schedule 0 w = w"
| "schedule (Suc n) w =
     (let t = length w
      in schedule n
           (w @ [sigma1 (w ! (t - 2)) + w ! (t - 7) + sigma0 (w ! (t - 15)) + w ! (t - 16)]))"

fun sha_round :: "32 word list \<Rightarrow> 32 word \<times> 32 word \<Rightarrow> 32 word list" where
  "sha_round [a, b, c, d, e, f, g, h] (k, w) =
     (let t1 = h + Sigma1 e + Ch e f g + k + w;
          t2 = Sigma0 a + Maj a b c
      in [t1 + t2, a, b, c, d + t1, e, f, g])"
| "sha_round s _ = s"

definition compress :: "32 word list \<Rightarrow> 32 word list \<Rightarrow> 32 word list" where
  "compress hs blk =
     map2 (+) hs (foldl sha_round hs (zip round_constants (schedule 48 blk)))"

definition hex_word :: "32 word \<Rightarrow> string" where
  "hex_word w = map (\<lambda>i. hex_digit (unat (drop_bit (4 * (7 - i)) w))) [0..<8]"

definition sha256_hex :: "string \<Rightarrow> string" where
  "sha256_hex s =
     (let ws = be_words (pad (utf8 s))
      in concat (map hex_word (foldl compress initial_hash (blocks (length ws div 16) ws))))"

section \<open>The server: \<open>src/server.js\<close>\<close>

subsection \<open>The two tables\<close>

text \<open>
  A row of \<open>links\<close> and a row of \<open>fingerprints\<close>, column by column. A nullable column is
  an \<open>option\<close>; \<open>created_at\<close> is the \<open>CURRENT_TIMESTAMP\<close> of the insertion. The database
  is the two tables in row order and the two \<open>AUTOINCREMENT\<close> counters.
\<close>

record link =
  link_id :: nat
  short_code :: string
  target_url :: string
  link_created_at :: nat

record fingerprint =
  fp_id :: nat
  fp_link_id :: nat
  hash :: "string option"
  ip :: "string option"
  user_agent :: "string option"
  server_data :: "string option"
  client_data :: "string option"
  behavior_data :: "string option"
  nuclear_data :: "string option"
  created_at :: nat

record db =
  links :: "link list"
  fingerprints :: "fingerprint list"
  links_seq :: nat
  fingerprints_seq :: nat

definition empty_db :: db where
  "empty_db = \<lparr>links = [], fingerprints = [], links_seq = 0, fingerprints_seq = 0\<rparr>"

text \<open>What a handler answers: \<open>res.status(n).json(v)\<close>, \<open>res.status(n).send(text)\<close>,
  \<open>res.sendStatus(n)\<close>, \<open>res.redirect(url)\<close>, and the bootstrap page of \<open>GET /:code\<close> with
  the three values spliced into it (\<open>TRACKING_ID\<close>, the \<open>TARGET_URL\<close> literal, the
  address of the \<open>noscript\<close> refresh).\<close>

datatype response =
    Json nat json
  | Send nat string
  | SendStatus nat
  | Redirect string
  | Page nat string string

subsection \<open>\<open>POST /api/create\<close>\<close>

text \<open>\<open>crypto.randomBytes(4).toString('hex')\<close>: the four random bytes are the 32-bit word
  \<open>rnd\<close>, most significant byte first.\<close>

definition generateCode :: "32 word \<Rightarrow> string" where
  "generateCode rnd = hex_word rnd"

text \<open>The test \<open>/^[a-z0-9_-]{3,20}$/i\<close>.\<close>

definition code_char :: "char \<Rightarrow> bool" where
  "code_char c =
     (let n = (of_char c :: nat) in
      (97 \<le> n \<and> n \<le> 122) \<or> (65 \<le> n \<and> n \<le> 90) \<or> (48 \<le> n \<and> n \<le> 57) \<or> n = 95 \<or> n = 45)"

definition valid_custom_code :: "string \<Rightarrow> bool" where
  "valid_custom_code c = (3 \<le> length c \<and> length c \<le> 20 \<and> list_all code_char c)"

text \<open>
  The request: the two properties of the body the handler reads (\<open>None\<close> when the property
  is missing; the form sends strings), the random word \<open>generateCode\<close> would draw, the
  clock, and for each of the three statements whether the storage layer reports an error.
\<close>

record create_request =
  url :: "string option"
  customCode :: "string option"
  rnd :: "32 word"
  create_now :: nat
  url_lookup_fails :: bool
  code_lookup_fails :: bool
  link_insert_fails :: bool

text \<open>A string is truthy unless it is empty or missing.\<close>

definition truthy :: "string option \<Rightarrow> string option" where
  "truthy s = (case s of None \<Rightarrow> None | Some v \<Rightarrow> if v = [] then None else Some v)"

definition post_api_create :: "db \<Rightarrow> create_request \<Rightarrow> db \<times> response" where
  "post_api_create d r =
     (case truthy (url r) of
        None \<Rightarrow> (d, Json 400 (JObj [(''error'', JStr ''URL is required'')]))
      | Some u \<Rightarrow>
          (case (if url_lookup_fails r then None else find (\<lambda>l. target_url l = u) (links d)) of
             Some existing \<Rightarrow>
               (d, Json 200 (JObj [(''code'', JStr (short_code existing)), (''existing'', JBool True)]))
           | None \<Rightarrow>
               (let code = (case truthy (customCode r) of Some c \<Rightarrow> c | None \<Rightarrow> generateCode (rnd r));
                    insert_new =
                      (if link_insert_fails r \<or> list_ex (\<lambda>l. short_code l = code) (links d)
                       then (d, Json 500 (JObj [(''error'', JStr ''Internal server error'')]))
                       else (d\<lparr>links := links d @
                                   [\<lparr>link_id = Suc (links_seq d), short_code = code, target_url = u,
                                     link_created_at = create_now r\<rparr>],
                               links_seq := Suc (links_seq d)\<rparr>,
                             Json 200 (JObj [(''code'', JStr code)])))
                in case truthy (customCode r) of
                     None \<Rightarrow> insert_new
                   | Some c \<Rightarrow>
                       if \<not> code_lookup_fails r \<and> list_ex (\<lambda>l. short_code l = c) (links d)
                       then (d, Json 400 (JObj [(''error'', JStr ''Custom code already in use'')]))
                       else if \<not> valid_custom_code c
                       then (d, Json 400 (JObj [(''error'', JStr ''Invalid custom code format'')]))
                       else insert_new)))"

subsection \<open>\<open>GET /:code\<close>\<close>

text \<open>
  The request: the path parameter, what the handler reads from \<open>req\<close> for \<open>serverData\<close>
  (an undefined \<open>req.ip\<close> or \<open>req.hostname\<close> is \<open>None\<close>, \<open>req.socket._handle?.ttl\<close> is a
  JavaScript value), the two readings of \<open>Date.now()\<close>, the clock of the database, and for
  each of the two statements whether the storage layer reports an error.
\<close>

record get_request =
  code :: string
  req_ip :: "string option"
  headers :: "(string \<times> string) list"
  hostname :: "string option"
  socket_ttl :: json
  startTime :: int
  lookup_done :: int
  get_now :: nat
  link_lookup_fails :: bool
  fingerprint_insert_fails :: bool

definition js_string :: "string option \<Rightarrow> json" where
  "js_string s = (case s of None \<Rightarrow> JUndefined | Some v \<Rightarrow> JStr v)"

definition serverData :: "get_request \<Rightarrow> json" where
  "serverData r =
     JObj [(''ip'', js_string (req_ip r)),
           (''headers'', JObj (map (\<lambda>(k, v). (k, JStr v)) (headers r))),
           (''dns'', js_string (hostname r)),
           (''tcp'', JObj [(''ttl'', socket_ttl r), (''timing'', JNum (lookup_done r - startTime r))]),
           (''geo'', (case truthy (map_of (headers r) ''cf-ipcountry'') of
                        None \<Rightarrow> JNull | Some g \<Rightarrow> JStr g))]"

text \<open>A template literal writes \<open>undefined\<close> for an undefined value.\<close>

definition splice :: "string option \<Rightarrow> string" where
  "splice s = (case s of None \<Rightarrow> ''undefined'' | Some v \<Rightarrow> v)"

definition get_code :: "db \<Rightarrow> get_request \<Rightarrow> db \<times> response" where
  "get_code d r =
     (case (if link_lookup_fails r then None else find (\<lambda>l. short_code l = code r) (links d)) of
        None \<Rightarrow> (d, Send 404 ''Link not found'')
      | Some lnk \<Rightarrow>
          if fingerprint_insert_fails r then (d, Redirect (target_url lnk))
          else
            (let lastID = Suc (fingerprints_seq d)
             in (d\<lparr>fingerprints := fingerprints d @
                        [\<lparr>fp_id = lastID, fp_link_id = link_id lnk, hash = None, ip = req_ip r,
                          user_agent = map_of (headers r) ''user-agent'',
                          server_data = JSON_stringify (serverData r),
                          client_data = None, behavior_data = None, nuclear_data = None,
                          created_at = get_now r\<rparr>],
                    fingerprints_seq := lastID\<rparr>,
                 Page lastID (splice (JSON_stringify (JStr (target_url lnk)))) (target_url lnk))))"

subsection \<open>\<open>POST /api/track\<close>\<close>

text \<open>
  The request: the three properties of the body the handler reads and whether the storage
  layer reports an error for the \<open>UPDATE\<close>. \<open>req_id\<close> is the number the page sent
  (\<open>window.TRACKING_ID\<close>), \<open>None\<close> when the property is missing or null; a missing
  \<open>clientData\<close> or \<open>behavior\<close> is \<open>JUndefined\<close>.
\<close>

record track_request =
  req_id :: "int option"
  clientData :: json
  behavior :: json
  update_fails :: bool

definition combined :: "track_request \<Rightarrow> json" where
  "combined r = JObj [(''clientData'', clientData r), (''behavior'', behavior r)]"

text \<open>\<open>WHERE id = ?\<close>: the rows the statement updates.\<close>

definition selected :: "track_request \<Rightarrow> fingerprint \<Rightarrow> bool" where
  "selected r row = (req_id r = Some (int (fp_id row)))"

text \<open>
  The column \<open>hash\<close> is \<open>UNIQUE\<close>: the \<open>UPDATE\<close> fails, and changes nothing, when it would
  give a row the hash another row already holds. \<open>hash.update\<close> throws on a value that is
  not a string, which the handler's \<open>catch\<close> answers with 500 like a failed statement.
\<close>

definition post_api_track :: "db \<Rightarrow> track_request \<Rightarrow> db \<times> response" where
  "post_api_track d r =
     (case JSON_stringify (combined r) of
        None \<Rightarrow> (d, Send 500 [])
      | Some s \<Rightarrow>
          (let h = sha256_hex s
           in if update_fails r then (d, Send 500 [])
              else if list_ex (selected r) (fingerprints d) \<and>
                      list_ex (\<lambda>row. \<not> selected r row \<and> hash row = Some h) (fingerprints d)
              then (d, Send 500 [])
              else (d\<lparr>fingerprints :=
                        map (\<lambda>row. if selected r row
                                    then row\<lparr>client_data := JSON_stringify (clientData r),
                                             behavior_data := JSON_stringify (behavior r),
                                             nuclear_data := JSON_stringify (combined r),
                                             hash := Some h\<rparr>
                                    else row)
                            (fingerprints d)\<rparr>,
                    SendStatus 200)))"

subsection \<open>The states the server reaches\<close>

text \<open>Each statement is atomic in the database, and \<open>fingerprints\<close> is written by one
  statement per request; the requests are taken one after the other.\<close>

inductive reachable :: "db \<Rightarrow> bool" where
  start: "reachable empty_db"
| create: "reachable d \<Longrightarrow> reachable (fst (post_api_create d r))"
| visit: "reachable d \<Longrightarrow> reachable (fst (get_code d g))"
| track: "reachable d \<Longrightarrow> reachable (fst (post_api_track d t))"

text \<open>A row has its content hash exactly when it has its combined payload.\<close>

definition paired :: "fingerprint \<Rightarrow> bool" where
  "paired row = ((hash row = None) = (nuclear_data row = None))"

subsection \<open>A short history\<close>

text \<open>One link is created, visited once, and the visit's fingerprint is delivered.\<close>

definition example_create :: create_request where
  "example_create =
     \<lparr>url = Some ''https://example.com'', customCode = Some ''abc123'', rnd = 0,
      create_now = 0, url_lookup_fails = False, code_lookup_fails = False,
      link_insert_fails = False\<rparr>"

definition example_visit :: get_request where
  "example_visit =
     \<lparr>code = ''abc123'', req_ip = Some ''203.0.113.7'',
      headers = [(''user-agent'', ''Mozilla/5.0'')], hostname = Some ''sho.rt'',
      socket_ttl = JUndefined, startTime = 1000, lookup_done = 1002, get_now = 1,
      link_lookup_fails = False, fingerprint_insert_fails = False\<rparr>"

definition example_track :: track_request where
  "example_track =
     \<lparr>req_id = Some 1, clientData = JObj [(''basic'', JObj [])], behavior = JObj [],
      update_fails = False\<rparr>"

definition linked_db :: db where
  "linked_db = fst (post_api_create empty_db example_create)"

definition visited_db :: db where
  "visited_db = fst (get_code linked_db example_visit)"

definition tracked_db :: db where
  "tracked_db = fst (post_api_track visited_db example_track)"

definition example_row :: fingerprint where
  "example_row =
     \<lparr>fp_id = 1, fp_link_id = 1, hash = None, ip = Some ''203.0.113.7'',
      user_agent = Some ''Mozilla/5.0'',
      server_data = JSON_stringify (serverData example_visit),
      client_data = None, behavior_data = None, nuclear_data = None, created_at = 1\<rparr>"

section \<open>The collector: \<open>src/public/js/tracking.js\<close>\<close>

subsection \<open>Outcomes of calls and of promises\<close>

text \<open>
  A call into the browser returns a value or throws. A promise is fulfilled, is rejected,
  or stays pending for ever (\<open>Hang\<close>): an \<open>await\<close> on it then never resumes, and neither
  does any function waiting for that one.
\<close>

datatype 'a outcome = Returns 'a | Throws json

datatype 'a res = Ok 'a | Err json | Hang

definition ret :: "'a outcome \<Rightarrow> 'a res" where
  "ret c = (case c of Returns v \<Rightarrow> Ok v | Throws e \<Rightarrow> Err e)"

definition then_do :: "'a res \<Rightarrow> ('a \<Rightarrow> 'b res) \<Rightarrow> 'b res" where
  "then_do m f = (case m of Ok v \<Rightarrow> f v | Err e \<Rightarrow> Err e | Hang \<Rightarrow> Hang)"

definition try_catch :: "'a res \<Rightarrow> (json \<Rightarrow> 'a res) \<Rightarrow> 'a res" where
  "try_catch m h = (case m of Ok v \<Rightarrow> Ok v | Err e \<Rightarrow> h e | Hang \<Rightarrow> Hang)"

definition resolves :: "json res \<Rightarrow> bool" where
  "resolves r = (\<exists>v. r = Ok v)"

definition TypeError :: json where
  "TypeError = JStr ''TypeError''"

definition js_truthy :: "json \<Rightarrow> bool" where
  "js_truthy v =
     (case v of JUndefined \<Rightarrow> False | JNull \<Rightarrow> False | JBool c \<Rightarrow> c | JNum n \<Rightarrow> n \<noteq> 0
      | JStr s \<Rightarrow> s \<noteq> [] | JArr _ \<Rightarrow> True | JObj _ \<Rightarrow> True)"

text \<open>Reading and writing a property of an object.\<close>

definition field :: "json \<Rightarrow> string \<Rightarrow> json" where
  "field v k =
     (case v of JObj ps \<Rightarrow> (case map_of ps k of Some x \<Rightarrow> x | None \<Rightarrow> JUndefined)
      | _ \<Rightarrow> JUndefined)"

fun put_prop :: "string \<Rightarrow> json \<Rightarrow> (string \<times> json) list \<Rightarrow> (string \<times> json) list" where
  "put_prop k v [] = [(k, v)]"
| "put_prop k v (p # ps) = (if fst p = k then (k, v) # ps else p # put_prop k v ps)"

definition put :: "json \<Rightarrow> string \<Rightarrow> json \<Rightarrow> json" where
  "put obj k v = (case obj of JObj ps \<Rightarrow> JObj (put_prop k v ps) | _ \<Rightarrow> obj)"

subsection \<open>The browser\<close>

text \<open>
  What the page's environment answers. \<open>property\<close> is a read that cannot throw, named by the
  expression the script reads. A WebGL context is its answers to the three methods the
  script calls (\<open>debug_renderer_info\<close>: whether \<open>getExtension\<close> returns the extension).
  An API the browser does not have is \<open>None\<close>; \<open>sensor name\<close> is the sensor object at its
  first \<open>reading\<close> event, \<open>Err\<close> when the constructor or \<open>start()\<close> throws, \<open>Hang\<close> when
  no reading ever comes. \<open>document_body\<close> tells whether \<open>document.body\<close> exists when the
  font probe runs; \<open>offsetWidth\<close> is the width of the detector under a font.
  \<open>started\<close> and \<open>collected\<close> are the readings of \<open>performance.now()\<close> before and after
  the collection, in milliseconds, \<open>timeOrigin\<close> is \<open>Date.now()\<close> at reading 0, and
  \<open>track_response\<close> is what becomes of the request to \<open>/api/track\<close>.
\<close>

record glctx =
  getParameter :: "string \<Rightarrow> json outcome"
  debug_renderer_info :: "bool outcome"
  getSupportedExtensions :: "json outcome"

record browser =
  property :: "string \<Rightarrow> json"
  timeZone :: "json outcome"
  getContext :: "string \<Rightarrow> glctx option outcome"
  getContext_2d :: "bool outcome"
  toDataURL :: "json outcome"
  new_Function :: "json outcome"
  little_endian :: bool
  getBattery :: "json res option"
  storage_estimate :: "json res option"
  enumerateDevices :: "json res option"
  sensor :: "string \<Rightarrow> json res option"
  canPlayType :: "string \<Rightarrow> json outcome"
  document_body :: bool
  offsetWidth :: "string \<Rightarrow> int"
  style_has :: "string \<Rightarrow> bool"
  ontouchstart :: bool
  timeOrigin :: int
  started :: nat
  collected :: nat
  toISOString :: string
  TRACKING_ID :: json
  TARGET_URL :: string
  track_response :: "json res"

subsection \<open>Basic system data\<close>

definition getBasicData :: "browser \<Rightarrow> json res" where
  "getBasicData b =
     then_do (ret (timeZone b)) (\<lambda>tz.
       Ok (JObj
        [(''userAgent'', property b ''navigator.userAgent''),
         (''platform'', property b ''navigator.platform''),
         (''vendor'', property b ''navigator.vendor''),
         (''appVersion'', property b ''navigator.appVersion''),
         (''language'', property b ''navigator.language''),
         (''languages'', property b ''navigator.languages''),
         (''cookieEnabled'', property b ''navigator.cookieEnabled''),
         (''doNotTrack'', property b ''navigator.doNotTrack''),
         (''hardwareConcurrency'', property b ''navigator.hardwareConcurrency''),
         (''deviceMemory'', property b ''navigator.deviceMemory''),
         (''timezone'', tz),
         (''timezoneOffset'', property b ''new Date().getTimezoneOffset()''),
         (''screen'', JObj
           [(''width'', property b ''screen.width''),
            (''height'', property b ''screen.height''),
            (''availWidth'', property b ''screen.availWidth''),
            (''availHeight'', property b ''screen.availHeight''),
            (''colorDepth'', property b ''screen.colorDepth''),
            (''pixelRatio'', property b ''window.devicePixelRatio''),
            (''orientation'', property b ''screen.orientation?.type'')]),
         (''window'', JObj
           [(''innerWidth'', property b ''window.innerWidth''),
            (''innerHeight'', property b ''window.innerHeight''),
            (''outerWidth'', property b ''window.outerWidth''),
            (''outerHeight'', property b ''window.outerHeight'')])]))"

subsection \<open>Hardware capabilities\<close>

definition getGPUInfo :: "browser \<Rightarrow> json res" where
  "getGPUInfo b =
     try_catch
       (then_do (ret (getContext b ''webgl'')) (\<lambda>first.
        then_do (case first of Some g \<Rightarrow> Ok (Some g)
                 | None \<Rightarrow> ret (getContext b ''experimental-webgl'')) (\<lambda>gl.
        case gl of
          None \<Rightarrow> Ok JNull
        | Some g \<Rightarrow>
            then_do (ret (debug_renderer_info g)) (\<lambda>debugInfo.
            then_do (ret (getParameter g (if debugInfo then ''UNMASKED_VENDOR_WEBGL'' else ''VENDOR''))) (\<lambda>vendor.
            then_do (ret (getParameter g (if debugInfo then ''UNMASKED_RENDERER_WEBGL'' else ''RENDERER''))) (\<lambda>renderer.
            then_do (ret (getParameter g ''SHADING_LANGUAGE_VERSION'')) (\<lambda>shadingLanguage.
            then_do (ret (getParameter g ''ALIASED_LINE_WIDTH_RANGE'')) (\<lambda>aliasedLineWidthRange.
            then_do (ret (getSupportedExtensions g)) (\<lambda>extensions.
              Ok (JObj [(''vendor'', vendor), (''renderer'', renderer),
                        (''shadingLanguage'', shadingLanguage),
                        (''aliasedLineWidthRange'', aliasedLineWidthRange),
                        (''extensions'', extensions)]))))))))))
       (\<lambda>e. Ok JNull)"

definition detectCPUArchitecture :: "browser \<Rightarrow> json" where
  "detectCPUArchitecture b =
     (case new_Function b of
        Returns v \<Rightarrow> JStr (if js_truthy v then ''WASM supported'' else ''No WASM'')
      | Throws e \<Rightarrow> JStr ''Unknown'')"

text \<open>The two bytes \<open>0xAA\<close>, \<open>0xBB\<close> of the buffer read as one 16-bit number.\<close>

definition detectEndianness :: "browser \<Rightarrow> json" where
  "detectEndianness b =
     (let uint8Array = [0xAA, 0xBB :: 8 word];
          lo = (if little_endian b then uint8Array ! 0 else uint8Array ! 1);
          hi = (if little_endian b then uint8Array ! 1 else uint8Array ! 0);
          uint16 = (push_bit 8 (ucast hi) OR ucast lo :: 16 word)
      in JStr (if uint16 = 0xBBAA then ''LE'' else ''BE''))"

definition getBatteryInfo :: "browser \<Rightarrow> json res" where
  "getBatteryInfo b =
     (case getBattery b of
        None \<Rightarrow> Ok JNull
      | Some promise \<Rightarrow>
          try_catch
            (then_do promise (\<lambda>battery.
               Ok (JObj [(''charging'', field battery ''charging''),
                         (''level'', field battery ''level''),
                         (''chargingTime'', field battery ''chargingTime''),
                         (''dischargingTime'', field battery ''dischargingTime'')])))
            (\<lambda>e. Ok JNull))"

definition getStorageInfo :: "browser \<Rightarrow> json res" where
  "getStorageInfo b =
     (case storage_estimate b of
        None \<Rightarrow> Ok JNull
      | Some promise \<Rightarrow> try_catch promise (\<lambda>e. Ok JNull))"

definition getMediaDevices :: "browser \<Rightarrow> json res" where
  "getMediaDevices b =
     (case enumerateDevices b of
        None \<Rightarrow> Ok JNull
      | Some promise \<Rightarrow>
          try_catch
            (then_do promise (\<lambda>devices.
               case devices of
                 JArr ds \<Rightarrow>
                   Ok (JArr (map (\<lambda>d. JObj [(''kind'', field d ''kind''),
                                             (''groupId'', field d ''groupId''),
                                             (''label'', field d ''label'')]) ds))
               | _ \<Rightarrow> Err TypeError))
            (\<lambda>e. Ok JNull))"

definition getSensorData :: "browser \<Rightarrow> json res" where
  "getSensorData b =
     then_do
       (case sensor b ''Accelerometer'' of
          None \<Rightarrow> Ok []
        | Some reading \<Rightarrow>
            try_catch
              (then_do reading (\<lambda>s.
                 Ok [(''accelerometer'',
                      JObj [(''x'', field s ''x''), (''y'', field s ''y''), (''z'', field s ''z'')])]))
              (\<lambda>e. Ok []))
       (\<lambda>results.
     then_do
       (case sensor b ''Gyroscope'' of
          None \<Rightarrow> Ok results
        | Some reading \<Rightarrow>
            try_catch
              (then_do reading (\<lambda>s.
                 Ok (put_prop ''gyroscope''
                      (JObj [(''x'', field s ''x''), (''y'', field s ''y''), (''z'', field s ''z'')])
                      results)))
              (\<lambda>e. Ok results))
       (\<lambda>results. Ok (if results \<noteq> [] then JObj results else JNull)))"

definition getHardwareData :: "browser \<Rightarrow> json res" where
  "getHardwareData b =
     then_do (getGPUInfo b) (\<lambda>gpu.
       let cpu = JObj [(''cores'', property b ''navigator.hardwareConcurrency''),
                       (''architecture'', detectCPUArchitecture b),
                       (''endianness'', detectEndianness b)]
       in then_do (getBatteryInfo b) (\<lambda>battery.
          then_do (getStorageInfo b) (\<lambda>storage.
          then_do (getMediaDevices b) (\<lambda>mediaDevices.
          then_do (getSensorData b) (\<lambda>sensors.
            Ok (JObj [(''gpu'', gpu), (''cpu'', cpu), (''battery'', battery),
                      (''storage'', storage), (''mediaDevices'', mediaDevices),
                      (''sensors'', sensors)]))))))"

subsection \<open>Graphics fingerprinting\<close>

text \<open>Setting \<open>ctx.textBaseline\<close> throws when \<open>getContext('2d')\<close> returned null.\<close>

definition getCanvasFingerprint :: "browser \<Rightarrow> json res" where
  "getCanvasFingerprint b =
     try_catch
       (then_do (ret (getContext_2d b)) (\<lambda>ctx.
          if ctx then ret (toDataURL b) else Err TypeError))
       (\<lambda>e. Ok JNull)"

definition getWebGLFingerprint :: "browser \<Rightarrow> json res" where
  "getWebGLFingerprint b =
     try_catch
       (then_do (ret (getContext b ''webgl'')) (\<lambda>gl.
        case gl of
          None \<Rightarrow> Ok JNull
        | Some g \<Rightarrow>
            then_do (ret (getParameter g ''VENDOR'')) (\<lambda>vendor.
            then_do (ret (getParameter g ''RENDERER'')) (\<lambda>renderer.
            then_do (ret (getParameter g ''MAX_TEXTURE_SIZE'')) (\<lambda>max_texture_size.
            then_do (ret (getSupportedExtensions g)) (\<lambda>extensions.
              Ok (JObj [(''parameters'',
                         JObj [(''VENDOR'', vendor), (''RENDERER'', renderer),
                               (''MAX_TEXTURE_SIZE'', max_texture_size)]),
                        (''extensions'', extensions)])))))))
       (\<lambda>e. Ok JNull)"

definition getWebGL2Info :: "browser \<Rightarrow> json res" where
  "getWebGL2Info b =
     try_catch
       (then_do (ret (getContext b ''webgl2'')) (\<lambda>gl.
        case gl of
          None \<Rightarrow> Ok JNull
        | Some g \<Rightarrow>
            then_do (ret (getParameter g ''MAX_3D_TEXTURE_SIZE'')) (\<lambda>max_3d.
            then_do (ret (getParameter g ''MAX_ARRAY_TEXTURE_LAYERS'')) (\<lambda>max_layers.
            then_do (ret (getSupportedExtensions g)) (\<lambda>extensions.
              Ok (JObj [(''parameters'',
                         JObj [(''MAX_3D_TEXTURE_SIZE'', max_3d),
                               (''MAX_ARRAY_TEXTURE_LAYERS'', max_layers)]),
                        (''extensions'', extensions)]))))))
       (\<lambda>e. Ok JNull)"

definition getVideoCapabilities :: "browser \<Rightarrow> json res" where
  "getVideoCapabilities b =
     try_catch
       (then_do (ret (canPlayType b ''video/webm'')) (\<lambda>webm.
        then_do (ret (canPlayType b ''video/mp4; codecs=\"avc1.42E01E\"'')) (\<lambda>h264.
        then_do (ret (canPlayType b ''video/webm; codecs=\"vp9\"'')) (\<lambda>vp9.
          Ok (JObj [(''formats'', if js_truthy webm then JStr ''webm'' else JNull),
                    (''codecs'', JObj [(''h264'', h264), (''vp9'', vp9)])])))))
       (\<lambda>e. Ok JNull)"

definition fontList :: "string list" where
  "fontList =
    [''Arial'', ''Arial Black'', ''Arial Narrow'', ''Arial Rounded MT Bold'',
     ''Times New Roman'', ''Times'', ''Times Roman'', ''Courier New'', ''Courier'',
     ''Georgia'', ''Georgia Pro'', ''Verdana'', ''Verdana Pro'', ''Tahoma'', ''Tahoma Pro'',
     ''Helvetica'', ''Helvetica Neue'', ''Helvetica Now'', ''Gill Sans'', ''Gill Sans MT'',
     ''Gill Sans Nova'', ''Futura'', ''Futura PT'', ''Futura Md BT'', ''Myriad Pro'',
     ''Myriad Web'', ''Lucida Grande'', ''Lucida Sans'', ''Lucida Console'', ''Palatino'',
     ''Palatino Linotype'', ''Book Antiqua'', ''Garamond'', ''Garamond Premier Pro'',
     ''Baskerville'', ''Baskerville Old Face'', ''Bodoni MT'', ''Bodoni 72'', ''Rockwell'',
     ''Rockwell Nova'', ''Franklin Gothic'', ''Franklin Gothic Medium'', ''Century Gothic'',
     ''Avant Garde Gothic'', ''Optima'', ''Optima Nova'', ''Didot'', ''Didot LT STD'',
     ''Calibri'', ''Calibri Light'', ''Candara'', ''Corbel'', ''Constantia'', ''Cambria'',
     ''Segoe UI'', ''Segoe Print'', ''Segoe Script'', ''Microsoft Sans Serif'',
     ''Microsoft Yi Baiti'', ''MS Gothic'', ''MS Mincho'', ''MS PGothic'', ''MS PMincho'',
     ''MS Reference Sans Serif'', ''MS Reference Specialty'', ''MV Boli'', ''MingLiU'',
     ''PMingLiU'', ''SimSun'', ''SimHei'', ''KaiTi'', ''FangSong'', ''YouYuan'',
     ''Microsoft JhengHei'', ''Microsoft YaHei'', ''Malgun Gothic'', ''Gulim'', ''Dotum'',
     ''Roboto'', ''Roboto Condensed'', ''Roboto Mono'', ''Open Sans'',
     ''Open Sans Condensed'', ''Lato'', ''Lato Hairline'', ''Montserrat'',
     ''Montserrat Alternates'', ''Source Sans Pro'', ''Source Serif Pro'', ''PT Sans'',
     ''PT Serif'', ''PT Mono'', ''Oswald'', ''Raleway'', ''Merriweather'',
     ''Playfair Display'', ''Playfair Display SC'', ''Ubuntu'', ''Ubuntu Mono'',
     ''Ubuntu Condensed'', ''Noto Sans'', ''Noto Serif'', ''Noto Sans JP'', ''Droid Sans'',
     ''Droid Serif'', ''Droid Sans Mono'', ''Fira Sans'', ''Fira Code'', ''Fira Mono'',
     ''Adobe Garamond Pro'', ''Adobe Caslon Pro'', ''Minion Pro'', ''Myriad Pro'',
     ''Trajan Pro'', ''Birch Std'', ''Blackoak Std'', ''Brush Script Std'',
     ''Chaparral Pro'', ''Charlemagne Std'', ''Cooper Std'', ''Coronet'', ''Cottonwood Std'',
     ''Cronos Pro'', ''Delicious'', ''Ex Ponto'', ''Frutiger'', ''Frutiger LT Std'',
     ''Kozuka Gothic Pro'', ''Kozuka Mincho Pro'', ''Lithos Pro'', ''Mesquite Std'',
     ''Mistral Std'', ''Moonglow'', ''Neue Haas Grotesk'', ''OCR A Std'', ''Poplar Std'',
     ''Prestige Elite Std'', ''Rosewood Std'', ''Sanvito Pro'', ''Sava Pro'', ''Silom'',
     ''Souvenir Std'', ''Tekton Pro'', ''Vag Rounded'', ''Warnock Pro'', ''Wood Type Std'',
     ''San Francisco'', ''SF Pro'', ''SF Mono'', ''SF Compact'', ''New York'',
     ''SF Pro Rounded'', ''SF UI'', ''Apple Chancery'', ''Apple Garamond'', ''Chicago'',
     ''Geneva'', ''Monaco'', ''Hoefler Text'', ''Skia'', ''Capitals'', ''Herculanum'',
     ''Marker Felt'', ''Optima'', ''Papyrus'', ''Sand'', ''SignPainter'', ''Consolas'',
     ''Inconsolata'', ''Fira Code'', ''Menlo'', ''Monaco'', ''DejaVu Sans Mono'',
     ''Droid Sans Mono'', ''Liberation Mono'', ''Source Code Pro'', ''Hack'', ''Input Mono'',
     ''Anonymous Pro'', ''Cascadia Code'', ''JetBrains Mono'', ''IBM Plex Mono'',
     ''Courier Prime'', ''Roboto Mono'', ''Ubuntu Mono'', ''PT Mono'', ''Space Mono'',
     ''Impact'', ''Haettenschweiler'', ''Copperplate'', ''Copperplate Gothic'',
     ''Bauhaus 93'', ''Berlin Sans FB'', ''Bernard MT'', ''Blackadder ITC'',
     ''Bodoni MT Poster'', ''Bradley Hand'', ''Britannic Bold'', ''Broadway'',
     ''Brush Script MT'', ''Chiller'', ''Colonna MT'', ''Currier'', ''Edwardian Script'',
     ''Elephant'', ''Engravers MT'', ''Eras ITC'', ''Felix Titling'', ''Freestyle Script'',
     ''French Script'', ''Gigi'', ''Goudy Stout'', ''Harrington'', ''Jokerman'',
     ''Juice ITC'', ''Kunstler Script'', ''Magneto'', ''Maiandra GD'', ''Matura MT'',
     ''Mistral'', ''Modern No. 20'', ''Niagara'', ''Old English Text'', ''Onyx'',
     ''Parchment'', ''Pristina'', ''Rage Italic'', ''Ravie'', ''Script MT Bold'',
     ''Showcard Gothic'', ''Snap ITC'', ''Stencil'', ''Viner Hand ITC'', ''Vivaldi'',
     ''Vladimir Script'', ''Traditional Arabic'', ''Arabic Typesetting'',
     ''Simplified Arabic'', ''Aldhabi'', ''Andalus'', ''Times New Roman Cyr'', ''Arial Cyr'',
     ''Courier New Cyr'', ''Calibri Cyr'', ''GreekC'', ''GreekS'', ''Palatino Linotype'',
     ''Arial Hebrew'', ''David'', ''FrankRuehl'', ''Mangal'', ''Latha'', ''Gautami'',
     ''MS Gothic'', ''MS Mincho'', ''Meiryo'', ''Batang'', ''Gulim'', ''Dotum'',
     ''Angsana New'', ''Cordia New'', ''Browallia New'', ''Times New Roman Viet'',
     ''Arial Viet'', ''American Typewriter'', ''Antique Olive'', ''Arnoldboecklin'',
     ''Bembo'', ''Bickham Script'', ''BlairMdITC TT'', ''Bodoni Egyptian'',
     ''Bookman Old Style'', ''Braggadocio'', ''Calisto MT'', ''Castellar'', ''Centaur'',
     ''Century Schoolbook'', ''Charcoal'', ''Charter'', ''Cheltenham'', ''Clarendon'',
     ''Coliseum'', ''Cornerstone'', ''Cushing'', ''Dom Casual'', ''Ehrhardt'',
     ''Engravers Old English'', ''Espy Sans'', ''Espy Serif'', ''Fette Fraktur'',
     ''Florence'', ''Folio'', ''Footlight MT'', ''Forum'', ''Garth Graphic'',
     ''Goudy Old Style'', ''Goudy Text MT'', ''Harlow Solid'', ''Imprint MT'', ''Kabel'',
     ''Kaufmann'', ''Kino MT'', ''Klang'', ''Kuenstler Script'', ''Leawood'',
     ''Letter Gothic'', ''Lithograph'', ''Lubalin Graph'', ''Lucida Calligraphy'',
     ''Lucida Fax'', ''Lucida Handwriting'', ''Lucida Sans Typewriter'', ''Magneto'',
     ''Medici Script'', ''Memphis'', ''Mesquite'', ''Monotype Corsiva'', ''Neuland'',
     ''News Gothic'', ''Novarese'', ''OCR A Extended'', ''Oldtown'', ''Omnia'', ''Othello'',
     ''Peignot'', ''Penumbra'', ''Pepita MT'', ''Perpetua'', ''Pioneer'',
     ''Plantagenet Cherokee'', ''Present'', ''Pump'', ''Quirinus'', ''Raleigh'', ''Romic'',
     ''Rotis Sans'', ''Rotis Serif'', ''Saloon'', ''Serifa'', ''Slogan'', ''Souvenir'',
     ''Stylus BT'', ''Swiss 721'', ''Tekton'', ''Tempus Sans ITC'', ''Thorndale'', ''Umbra'',
     ''Univers'', ''Utopia'', ''VAGRounded'', ''Wilhelm Klingspor Gotisch'', ''Windsor'',
     ''Zapf Chancery'', ''Zapfino'']"

text \<open>\<open>document.body.appendChild(detector)\<close> throws when \<open>document.body\<close> is null; nothing
  in \<open>getFontList\<close> catches it.\<close>

definition getFontList :: "browser \<Rightarrow> json res" where
  "getFontList b =
     (if document_body b
      then Ok (JArr (map JStr (filter (\<lambda>font. 0 < offsetWidth b font) fontList)))
      else Err TypeError)"

definition getCSSFeatures :: "browser \<Rightarrow> json" where
  "getCSSFeatures b =
     JObj [(''flexbox'', JBool (style_has b ''flex'')),
           (''grid'', JBool (style_has b ''grid'')),
           (''transforms'', JBool (style_has b ''transform''))]"

definition getGraphicsData :: "browser \<Rightarrow> json res" where
  "getGraphicsData b =
     then_do (getCanvasFingerprint b) (\<lambda>canvas.
     then_do (getWebGLFingerprint b) (\<lambda>webgl.
     then_do (getWebGL2Info b) (\<lambda>webgl2.
     then_do (getVideoCapabilities b) (\<lambda>video.
     then_do (getFontList b) (\<lambda>fonts.
       Ok (JObj [(''canvas'', canvas), (''webgl'', webgl), (''webgl2'', webgl2),
                 (''video'', video), (''fonts'', fonts), (''css'', getCSSFeatures b)]))))))"

subsection \<open>Behavioural data: the listeners\<close>

text \<open>
  The page's listeners as a state: which handlers are registered, which timers are
  pending (the time each is due and the listener its callback removes), and the four
  arrays the handlers push to (\<open>touches\<close> is \<open>None\<close> where \<open>captureTouchEvents\<close> returned
  null). Times are readings of the page's clock in milliseconds; \<open>Date.now()\<close> is
  \<open>timeOrigin\<close> later.
\<close>

datatype listener = Mousemove | Scroll | Keydown | Touchstart

datatype event =
    MouseMove json json
  | ScrollTo json
  | KeyDown json json
  | TouchStart json json

record page =
  listeners :: "listener list"
  timers :: "(nat \<times> listener) list"
  movements :: "json list"
  mouse_startTime :: int
  pattern :: "json list"
  strokes :: "json list"
  touches :: "json list option"

definition blank :: page where
  "blank = \<lparr>listeners = [], timers = [], movements = [], mouse_startTime = 0, pattern = [],
            strokes = [], touches = None\<rparr>"

definition captureMouseMovements :: "browser \<Rightarrow> nat \<Rightarrow> page \<Rightarrow> page" where
  "captureMouseMovements b now p =
     p\<lparr>movements := [], mouse_startTime := timeOrigin b + int now,
       listeners := Mousemove # listeners p\<rparr>"

definition captureScrollPattern :: "nat \<Rightarrow> page \<Rightarrow> page" where
  "captureScrollPattern now p =
     p\<lparr>pattern := [], listeners := Scroll # listeners p,
       timers := timers p @ [(now + 1000, Scroll)]\<rparr>"

definition captureKeystrokes :: "nat \<Rightarrow> page \<Rightarrow> page" where
  "captureKeystrokes now p =
     p\<lparr>strokes := [], listeners := Keydown # listeners p,
       timers := timers p @ [(now + 1000, Keydown)]\<rparr>"

definition captureTouchEvents :: "browser \<Rightarrow> nat \<Rightarrow> page \<Rightarrow> page" where
  "captureTouchEvents b now p =
     (if \<not> ontouchstart b then p\<lparr>touches := None\<rparr>
      else p\<lparr>touches := Some [], listeners := Touchstart # listeners p,
             timers := timers p @ [(now + 1000, Touchstart)]\<rparr>)"

definition getBehaviorData :: "browser \<Rightarrow> nat \<Rightarrow> page \<Rightarrow> page" where
  "getBehaviorData b now p =
     captureTouchEvents b now
       (captureKeystrokes now (captureScrollPattern now (captureMouseMovements b now p)))"

text \<open>The object \<open>getBehaviorData\<close> returns, read when it is serialised.\<close>

definition behavior_object :: "page \<Rightarrow> json" where
  "behavior_object p =
     JObj [(''mouse'', JArr (movements p)), (''scroll'', JArr (pattern p)),
           (''keyboard'', JArr (strokes p)),
           (''touch'', (case touches p of None \<Rightarrow> JNull | Some ts \<Rightarrow> JArr ts))]"

text \<open>
  The handlers, run on an event dispatched at clock reading \<open>t\<close>. The pointer handler
  removes itself at the fiftieth sample; the other three never remove themselves.
\<close>

definition handler :: "browser \<Rightarrow> nat \<Rightarrow> event \<Rightarrow> page \<Rightarrow> page" where
  "handler b t e p =
     (case e of
        MouseMove clientX clientY \<Rightarrow>
          if Mousemove \<in> set (listeners p)
          then (let ms = movements p @
                       [JObj [(''x'', clientX), (''y'', clientY),
                              (''t'', JNum (timeOrigin b + int t - mouse_startTime p))]]
                in if 50 \<le> length ms
                   then p\<lparr>movements := ms, listeners := removeAll Mousemove (listeners p)\<rparr>
                   else p\<lparr>movements := ms\<rparr>)
          else p
      | ScrollTo scrollY \<Rightarrow>
          if Scroll \<in> set (listeners p)
          then p\<lparr>pattern := pattern p @
                   [JObj [(''y'', scrollY), (''t'', JNum (timeOrigin b + int t))]]\<rparr>
          else p
      | KeyDown key keycode \<Rightarrow>
          if Keydown \<in> set (listeners p)
          then p\<lparr>strokes := strokes p @
                   [JObj [(''key'', key), (''code'', keycode), (''t'', JNum (int t))]]\<rparr>
          else p
      | TouchStart clientX clientY \<Rightarrow>
          if Touchstart \<in> set (listeners p)
          then p\<lparr>touches := map_option
                   (\<lambda>ts. ts @ [JObj [(''x'', clientX), (''y'', clientY), (''t'', JNum (int t))]])
                   (touches p)\<rparr>
          else p)"

text \<open>
  The event loop: before an event dispatched at \<open>t\<close>, every timer due by \<open>t\<close> has run its
  callback, which removes its listener. \<open>run\<close> takes the events in the order of their
  dispatch.
\<close>

definition fire :: "nat \<Rightarrow> page \<Rightarrow> page" where
  "fire t p =
     p\<lparr>listeners := filter (\<lambda>l. \<not> list_ex (\<lambda>(due, k). due \<le> t \<and> k = l) (timers p)) (listeners p),
       timers := filter (\<lambda>(due, k). t < due) (timers p)\<rparr>"

definition dispatch :: "browser \<Rightarrow> page \<Rightarrow> nat \<times> event \<Rightarrow> page" where
  "dispatch b p te = handler b (fst te) (snd te) (fire (fst te) p)"

definition run :: "browser \<Rightarrow> (nat \<times> event) list \<Rightarrow> page \<Rightarrow> page" where
  "run b evs p = foldl (dispatch b) p evs"

text \<open>
  What a listener registered at \<open>now\<close> records of one dispatched event, and of a list of
  them: the samples of the events of its kind.
\<close>

definition sample :: "browser \<Rightarrow> nat \<Rightarrow> listener \<Rightarrow> nat \<times> event \<Rightarrow> json list" where
  "sample b now k te =
     (case snd te of
        MouseMove clientX clientY \<Rightarrow>
          if k = Mousemove
          then [JObj [(''x'', clientX), (''y'', clientY), (''t'', JNum (int (fst te) - int now))]]
          else []
      | ScrollTo scrollY \<Rightarrow>
          if k = Scroll
          then [JObj [(''y'', scrollY), (''t'', JNum (timeOrigin b + int (fst te)))]]
          else []
      | KeyDown key keycode \<Rightarrow>
          if k = Keydown
          then [JObj [(''key'', key), (''code'', keycode), (''t'', JNum (int (fst te)))]]
          else []
      | TouchStart clientX clientY \<Rightarrow>
          if k = Touchstart
          then [JObj [(''x'', clientX), (''y'', clientY), (''t'', JNum (int (fst te)))]]
          else [])"

definition samples :: "browser \<Rightarrow> nat \<Rightarrow> listener \<Rightarrow> (nat \<times> event) list \<Rightarrow> json list" where
  "samples b now k evs = concat (map (sample b now k) evs)"

definition before :: "nat \<Rightarrow> nat \<times> event \<Rightarrow> bool" where
  "before due te = (fst te < due)"

subsection \<open>The collection and the boot script\<close>

text \<open>
  \<open>getBehaviorData\<close> runs when the awaited groups have resolved, and the object is
  serialised in the same turn of the event loop, before any event is dispatched.
\<close>

definition collectAllData :: "browser \<Rightarrow> json res" where
  "collectAllData b =
     then_do (getBasicData b) (\<lambda>basic.
     then_do (getHardwareData b) (\<lambda>hardware.
     then_do (getGraphicsData b) (\<lambda>graphics.
       Ok (JObj [(''basic'', basic), (''hardware'', hardware), (''graphics'', graphics),
                 (''behavior'', behavior_object (getBehaviorData b (collected b) blank)),
                 (''timestamp'', JStr (toISOString b))]))))"

text \<open>
  What the script does to the world, in order; a run is the effects so far and how the
  code ends (\<open>Hang\<close>: it is still waiting). \<open>finally_run\<close> runs the cleanup when the
  guarded code has returned or thrown, and not while it waits.
\<close>

datatype effect =
    Fetch string "string option"
  | console_error string json
  | Navigate string

type_synonym 'a run = "effect list \<times> 'a res"

definition emit :: "effect \<Rightarrow> unit run" where
  "emit e = ([e], Ok ())"

definition await :: "'a res \<Rightarrow> 'a run" where
  "await r = ([], r)"

definition then_run :: "'a run \<Rightarrow> ('a \<Rightarrow> 'b run) \<Rightarrow> 'b run" where
  "then_run m f =
     (case snd m of
        Ok v \<Rightarrow> (fst m @ fst (f v), snd (f v))
      | Err e \<Rightarrow> (fst m, Err e)
      | Hang \<Rightarrow> (fst m, Hang))"

definition catch_run :: "'a run \<Rightarrow> (json \<Rightarrow> 'a run) \<Rightarrow> 'a run" where
  "catch_run m h =
     (case snd m of
        Err e \<Rightarrow> (fst m @ fst (h e), snd (h e))
      | _ \<Rightarrow> m)"

definition finally_run :: "unit run \<Rightarrow> unit run \<Rightarrow> unit run" where
  "finally_run m cleanup =
     (case snd m of
        Hang \<Rightarrow> m
      | _ \<Rightarrow> (fst m @ fst cleanup, (case snd cleanup of Ok _ \<Rightarrow> snd m | r \<Rightarrow> r)))"

text \<open>The object the boot script serialises as the body of the request.\<close>

definition with_meta :: "browser \<Rightarrow> json \<Rightarrow> json" where
  "with_meta b collectedData =
     put collectedData ''meta''
       (JObj [(''collectionTime'', JNum (int (collected b) - int (started b)))])"

definition delivery :: "browser \<Rightarrow> json \<Rightarrow> json" where
  "delivery b collectedData =
     JObj [(''id'', TRACKING_ID b),
           (''clientData'', JObj [(''basic'', field collectedData ''basic''),
                                  (''hardware'', field collectedData ''hardware''),
                                  (''graphics'', field collectedData ''graphics'')]),
           (''behavior'', field collectedData ''behavior''),
           (''nuclearData'', collectedData)]"

definition boot :: "browser \<Rightarrow> unit run" where
  "boot b =
     finally_run
       (catch_run
          (then_run (await (collectAllData b)) (\<lambda>collected_data.
             let collectedData = with_meta b collected_data
             in then_run
                  (emit (Fetch ''/api/track'' (JSON_stringify (delivery b collectedData))))
                  (\<lambda>_. then_run (await (track_response b)) (\<lambda>_. ([], Ok ())))))
          (\<lambda>error. emit (console_error ''Tracking error:'' error)))
       (emit (Navigate (TARGET_URL b)))"

text \<open>The promises the hardware group awaits: one of them stays pending.\<close>

definition pending :: "browser \<Rightarrow> bool" where
  "pending b =
     (getBattery b = Some Hang \<or> storage_estimate b = Some Hang \<or>
      enumerateDevices b = Some Hang \<or> sensor b ''Accelerometer'' = Some Hang \<or>
      sensor b ''Gyroscope'' = Some Hang)"

subsection \<open>Six pages\<close>

text \<open>
  A page served over plain HTTP to a browser without WebGL: the battery, storage, media
  and sensor interfaces are absent, so nothing is awaited for long and the script, which
  sits in the document's head, reaches the font probe before \<open>document.body\<close> exists.
  The same page with the body present, and what is collected there; that page with a sink
  that never answers; that page with a battery interface that refuses; that page with a
  sink the request to which is rejected; and that page in a browser whose accelerometer
  exists and never reports a reading.
\<close>

definition head_page :: browser where
  "head_page =
     \<lparr>property = (\<lambda>k. if k = ''navigator.userAgent'' then JStr ''Mozilla/5.0'' else JUndefined),
      timeZone = Returns (JStr ''UTC''),
      getContext = (\<lambda>_. Returns None), getContext_2d = Returns True,
      toDataURL = Returns (JStr ''data:,''), new_Function = Returns (JBool True),
      little_endian = True, getBattery = None, storage_estimate = None,
      enumerateDevices = None, sensor = (\<lambda>_. None),
      canPlayType = (\<lambda>_. Returns (JStr [])), document_body = False,
      offsetWidth = (\<lambda>_. 0), style_has = (\<lambda>_. True), ontouchstart = False,
      timeOrigin = 1700000000000, started = 12, collected = 15,
      toISOString = ''2023-11-14T22:13:20.015Z'', TRACKING_ID = JNum 1,
      TARGET_URL = ''https://example.com'', track_response = Ok (JObj [(''status'', JNum 200)])\<rparr>"

definition body_page :: browser where
  "body_page = head_page\<lparr>document_body := True\<rparr>"

definition body_page_data :: json where
  "body_page_data =
     JObj
      [(''basic'',
        JObj
         [(''userAgent'', JStr ''Mozilla/5.0''), (''platform'', JUndefined),
          (''vendor'', JUndefined), (''appVersion'', JUndefined),
          (''language'', JUndefined), (''languages'', JUndefined),
          (''cookieEnabled'', JUndefined), (''doNotTrack'', JUndefined),
          (''hardwareConcurrency'', JUndefined), (''deviceMemory'', JUndefined),
          (''timezone'', JStr ''UTC''), (''timezoneOffset'', JUndefined),
          (''screen'',
           JObj
            [(''width'', JUndefined), (''height'', JUndefined),
             (''availWidth'', JUndefined), (''availHeight'', JUndefined),
             (''colorDepth'', JUndefined), (''pixelRatio'', JUndefined),
             (''orientation'', JUndefined)]),
          (''window'',
           JObj
            [(''innerWidth'', JUndefined), (''innerHeight'', JUndefined),
             (''outerWidth'', JUndefined), (''outerHeight'', JUndefined)])]),
       (''hardware'',
        JObj
         [(''gpu'', JNull),
          (''cpu'',
           JObj
            [(''cores'', JUndefined), (''architecture'', JStr ''WASM supported''),
             (''endianness'', JStr ''LE'')]),
          (''battery'', JNull), (''storage'', JNull), (''mediaDevices'', JNull),
          (''sensors'', JNull)]),
       (''graphics'',
        JObj
         [(''canvas'', JStr ''data:,''), (''webgl'', JNull), (''webgl2'', JNull),
          (''video'',
           JObj
            [(''formats'', JNull),
             (''codecs'', JObj [(''h264'', JStr []), (''vp9'', JStr [])])]),
          (''fonts'', JArr []),
          (''css'',
           JObj
            [(''flexbox'', JBool True), (''grid'', JBool True),
             (''transforms'', JBool True)])]),
       (''behavior'',
        JObj
         [(''mouse'', JArr []), (''scroll'', JArr []), (''keyboard'', JArr []),
          (''touch'', JNull)]),
       (''timestamp'', JStr ''2023-11-14T22:13:20.015Z'')]"

definition silent_sink :: browser where
  "silent_sink = body_page\<lparr>track_response := Hang\<rparr>"

definition denied_page :: browser where
  "denied_page = body_page\<lparr>getBattery := Some (Err (JStr ''NotAllowedError''))\<rparr>"

definition refusing_sink :: browser where
  "refusing_sink = body_page\<lparr>track_response := Err (JStr ''TypeError: Failed to fetch'')\<rparr>"

definition mute_sensor :: browser where
  "mute_sensor =
     body_page\<lparr>sensor := (\<lambda>name. if name = ''Accelerometer'' then Some Hang else None)\<rparr>"

section \<open>Properties of the server\<close>

subsection \<open>Auxiliary facts\<close>

lemma find_Some_mem: "find P xs = Some x \<Longrightarrow> x \<in> set xs \<and> P x"
  by (induction xs) (auto split: if_splits)

lemma find_None_iff_none: "(find P xs = None) = (\<not> list_ex P xs)"
  by (induction xs) auto

lemma track_fingerprints_cases:
  "fingerprints (fst (post_api_track d t)) = fingerprints d \<or>
   (\<exists>s. JSON_stringify (combined t) = Some s \<and>
     fingerprints (fst (post_api_track d t)) =
       map (\<lambda>row. if selected t row
                   then row\<lparr>client_data := JSON_stringify (clientData t),
                            behavior_data := JSON_stringify (behavior t),
                            nuclear_data := Some s,
                            hash := Some (sha256_hex s)\<rparr>
                   else row) (fingerprints d))"
  by (auto simp: post_api_track_def Let_def split: option.splits)

lemma create_keeps_fingerprints: "fingerprints (fst (post_api_create d r)) = fingerprints d"
  by (auto simp: post_api_create_def Let_def split: option.splits)

lemma visit_fingerprints:
  "fingerprints (fst (get_code d g)) = fingerprints d \<or>
   (\<exists>row. hash row = None \<and> nuclear_data row = None \<and>
      fingerprints (fst (get_code d g)) = fingerprints d @ [row])"
  by (auto simp: get_code_def Let_def split: option.splits)

lemma reachable_paired: "reachable d \<Longrightarrow> list_all paired (fingerprints d)"
proof (induction rule: reachable.induct)
  case start
  show ?case by (simp add: empty_db_def)
next
  case (create d r)
  then show ?case by (simp add: create_keeps_fingerprints)
next
  case (visit d g)
  from visit_fingerprints [of d g] visit.IH show ?case
    by (auto simp: paired_def)
next
  case (track d t)
  from track_fingerprints_cases [of d t] track.IH show ?case
    by (auto simp: paired_def list_all_iff)
qed

lemma create_links:
  "links (fst (post_api_create d r)) = links d \<or>
   (\<exists>l. target_url l \<noteq> [] \<and> links (fst (post_api_create d r)) = links d @ [l])"
  by (auto simp: post_api_create_def Let_def truthy_def split: option.splits if_splits)

lemma visit_keeps_links: "links (fst (get_code d g)) = links d"
  by (auto simp: get_code_def Let_def split: option.splits)

lemma track_keeps_links: "links (fst (post_api_track d t)) = links d"
  by (auto simp: post_api_track_def Let_def split: option.splits)

lemma reachable_urls: "reachable d \<Longrightarrow> list_all (\<lambda>l. target_url l \<noteq> []) (links d)"
proof (induction rule: reachable.induct)
  case start
  show ?case by (simp add: empty_db_def)
next
  case (create d r)
  from create_links [of d r] create.IH show ?case by auto
next
  case (visit d g)
  then show ?case by (simp add: visit_keeps_links)
next
  case (track d t)
  then show ?case by (simp add: track_keeps_links)
qed

lemma code_char_simps:
  "code_char CHR ''a''" "code_char CHR ''b''" "code_char CHR ''c''"
  "code_char CHR ''1''" "code_char CHR ''2''" "code_char CHR ''3''"
  by (simp_all add: code_char_def)

lemma linked_db_eq:
  "linked_db =
     \<lparr>links = [\<lparr>link_id = 1, short_code = ''abc123'', target_url = ''https://example.com'',
                link_created_at = 0\<rparr>],
      fingerprints = [], links_seq = 1, fingerprints_seq = 0\<rparr>"
  by (simp add: linked_db_def post_api_create_def example_create_def empty_db_def truthy_def
      valid_custom_code_def code_char_simps Let_def)

lemma visited_db_eq:
  "visited_db = linked_db\<lparr>fingerprints := [example_row], fingerprints_seq := 1\<rparr>"
  by (simp add: visited_db_def linked_db_eq get_code_def example_visit_def example_row_def)

lemma selected_example: "selected example_track example_row"
  by (simp add: selected_def example_track_def example_row_def)

lemma tracked_db_eq:
  "tracked_db =
     visited_db\<lparr>fingerprints :=
       [example_row\<lparr>client_data := JSON_stringify (clientData example_track),
                    behavior_data := JSON_stringify (behavior example_track),
                    nuclear_data := JSON_stringify (combined example_track),
                    hash := map_option sha256_hex (JSON_stringify (combined example_track))\<rparr>]\<rparr>"
  by (simp add: tracked_db_def visited_db_eq post_api_track_def selected_example
      JSON_stringify_def combined_def Let_def)
     (simp add: example_track_def)

lemma reachable_linked: "reachable linked_db"
  unfolding linked_db_def by (intro reachable.intros)

lemma reachable_tracked: "reachable tracked_db"
  unfolding tracked_db_def visited_db_def by (intro reachable.intros reachable_linked)
subsection \<open>The redirect survives a failed insertion\<close>

text \<open>
  Claim C5. When the code of \<open>GET /:code\<close> resolves to a link and the insertion of the
  fingerprint row fails in the storage layer, the handler answers with a redirect to the
  link's stored target URL, not with an error, and the database is as it was.
\<close>

theorem get_code_redirects_when_insert_fails:
  assumes "\<not> link_lookup_fails g"
    and "find (\<lambda>l. short_code l = code g) (links d) = Some lnk"
    and "fingerprint_insert_fails g"
  shows "get_code d g = (d, Redirect (target_url lnk))"
  using assms by (simp add: get_code_def)

theorem get_code_redirects_when_insert_fails_witness:
  "\<not> link_lookup_fails (example_visit\<lparr>fingerprint_insert_fails := True\<rparr>) \<and>
   find (\<lambda>l. short_code l = code (example_visit\<lparr>fingerprint_insert_fails := True\<rparr>))
     (links linked_db) = Some (hd (links linked_db)) \<and>
   fingerprint_insert_fails (example_visit\<lparr>fingerprint_insert_fails := True\<rparr>) \<and>
   get_code linked_db (example_visit\<lparr>fingerprint_insert_fails := True\<rparr>) =
     (linked_db, Redirect ''https://example.com'')"
proof -
  let ?g = "example_visit\<lparr>fingerprint_insert_fails := True\<rparr>"
  have a: "\<not> link_lookup_fails ?g" by (simp add: example_visit_def)
  have b: "find (\<lambda>l. short_code l = code ?g) (links linked_db) = Some (hd (links linked_db))"
    by (simp add: example_visit_def linked_db_eq)
  have c: "fingerprint_insert_fails ?g" by simp
  from get_code_redirects_when_insert_fails [OF a b c] a b c show ?thesis
    by (simp add: linked_db_eq)
qed

subsection \<open>Correlation with an unknown identifier\<close>

text \<open>
  The handler of \<open>POST /api/track\<close> never looks at how many rows the \<open>UPDATE\<close> changed.
  With the identifier 42, which no row of \<open>visited_db\<close> has, the answer is 200 and not a
  not-found status.
\<close>

theorem track_unknown_id_answers_200:
  "post_api_track visited_db (example_track\<lparr>req_id := Some 42\<rparr>) = (visited_db, SendStatus 200)"
  by (simp add: visited_db_eq post_api_track_def selected_def example_track_def example_row_def
      JSON_stringify_def combined_def Let_def)

text \<open>
  Claim C3, amended. When the identifier of \<open>POST /api/track\<close> matches no fingerprint row,
  the database is left as it was and no row is created; the answer is 200, or 500 when the
  storage layer reports an error, and never a not-found status.
\<close>

theorem track_unknown_id_changes_nothing:
  assumes "\<not> list_ex (selected t) (fingerprints d)"
  shows "post_api_track d t = (d, if update_fails t then Send 500 [] else SendStatus 200)"
proof -
  have "map (\<lambda>row. if selected t row then f row else row) (fingerprints d) = fingerprints d" for f
    using assms by (induction "fingerprints d") (auto simp: list_ex_iff map_idI)
  then show ?thesis using assms
    by (auto simp: post_api_track_def Let_def JSON_stringify_def combined_def)
qed

theorem track_unknown_id_changes_nothing_witness:
  "\<not> list_ex (selected (example_track\<lparr>req_id := Some 7\<rparr>)) (fingerprints visited_db) \<and>
   post_api_track visited_db (example_track\<lparr>req_id := Some 7\<rparr>) = (visited_db, SendStatus 200)"
proof -
  have a: "\<not> list_ex (selected (example_track\<lparr>req_id := Some 7\<rparr>)) (fingerprints visited_db)"
    by (simp add: visited_db_eq selected_def example_row_def)
  from track_unknown_id_changes_nothing [OF a] a show ?thesis by (simp add: example_track_def)
qed

subsection \<open>What a successful correlation stores\<close>

text \<open>
  Claim C4. When \<open>POST /api/track\<close> succeeds for the identifier of an existing row, that
  row's combined payload becomes the serialisation of the pair \<open>{clientData, behavior}\<close>
  that was sent, and its content hash the SHA-256 digest of that serialisation (the two
  single payloads are stored beside them). The digest is a function of the two inputs:
  a second successful call with the same \<open>clientData\<close> and \<open>behavior\<close>, on any database
  and row, stores the same hash.
\<close>

theorem track_stores_payload_and_digest:
  assumes "post_api_track d t = (d', SendStatus 200)"
    and "row \<in> set (fingerprints d)" and "selected t row"
    and "post_api_track e u = (e', SendStatus 200)"
    and "row2 \<in> set (fingerprints e)" and "selected u row2"
    and "clientData u = clientData t" and "behavior u = behavior t"
  shows "\<exists>s. JSON_stringify (JObj [(''clientData'', clientData t), (''behavior'', behavior t)]) = Some s \<and>
     row\<lparr>client_data := JSON_stringify (clientData t),
         behavior_data := JSON_stringify (behavior t),
         nuclear_data := Some s, hash := Some (sha256_hex s)\<rparr> \<in> set (fingerprints d') \<and>
     row2\<lparr>client_data := JSON_stringify (clientData t),
          behavior_data := JSON_stringify (behavior t),
          nuclear_data := Some s, hash := Some (sha256_hex s)\<rparr> \<in> set (fingerprints e')"
proof -
  have one: "row\<lparr>client_data := JSON_stringify (clientData t),
         behavior_data := JSON_stringify (behavior t),
         nuclear_data := JSON_stringify (combined t),
         hash := map_option sha256_hex (JSON_stringify (combined t))\<rparr> \<in> set (fingerprints d')"
    if "post_api_track d t = (d', SendStatus 200)" "row \<in> set (fingerprints d)" "selected t row"
    for d t d' row
    using that
    by (auto simp: post_api_track_def Let_def combined_def JSON_stringify_def split: if_splits)
  have c: "combined u = combined t" using assms(7,8) by (simp add: combined_def)
  from one [OF assms(1,2,3)] one [OF assms(4,5,6)] c assms(7,8) show ?thesis
    by (simp add: combined_def JSON_stringify_def)
qed

theorem track_stores_payload_and_digest_witness:
  "post_api_track visited_db example_track = (tracked_db, SendStatus 200) \<and>
   example_row \<in> set (fingerprints visited_db) \<and> selected example_track example_row \<and>
   post_api_track tracked_db example_track = (tracked_db, SendStatus 200) \<and>
   hd (fingerprints tracked_db) \<in> set (fingerprints tracked_db) \<and>
   selected example_track (hd (fingerprints tracked_db)) \<and>
   (\<exists>s. JSON_stringify (JObj [(''clientData'', clientData example_track),
                               (''behavior'', behavior example_track)]) = Some s \<and>
     example_row\<lparr>client_data := JSON_stringify (clientData example_track),
         behavior_data := JSON_stringify (behavior example_track),
         nuclear_data := Some s, hash := Some (sha256_hex s)\<rparr> \<in> set (fingerprints tracked_db) \<and>
     (hd (fingerprints tracked_db))\<lparr>client_data := JSON_stringify (clientData example_track),
         behavior_data := JSON_stringify (behavior example_track),
         nuclear_data := Some s, hash := Some (sha256_hex s)\<rparr> \<in> set (fingerprints tracked_db))"
proof -
  have a: "post_api_track visited_db example_track = (tracked_db, SendStatus 200)"
    by (simp add: tracked_db_eq visited_db_eq post_api_track_def selected_example
      JSON_stringify_def combined_def Let_def)
       (simp add: example_track_def)
  have b: "example_row \<in> set (fingerprints visited_db)" by (simp add: visited_db_eq)
  have c: "selected example_track (hd (fingerprints tracked_db))"
    by (simp add: tracked_db_eq selected_def example_track_def example_row_def)
  have d: "post_api_track tracked_db example_track = (tracked_db, SendStatus 200)"
    using c
    by (simp add: tracked_db_eq visited_db_eq post_api_track_def
      JSON_stringify_def combined_def Let_def)
       (simp add: example_track_def)
  have e: "hd (fingerprints tracked_db) \<in> set (fingerprints tracked_db)"
    by (simp add: tracked_db_eq)
  from track_stores_payload_and_digest [OF a b selected_example d e c refl refl]
    a b c d e selected_example
  show ?thesis by simp
qed

subsection \<open>Content hash and combined payload go together\<close>

text \<open>
  Claim C8. In every state the server reaches from the empty database, by any sequence of
  the three requests, a fingerprint row has a content hash if and only if it has a combined
  payload: the insertion of \<open>GET /:code\<close> sets neither, the update of \<open>POST /api/track\<close>
  sets both, and \<open>POST /api/create\<close> touches no fingerprint row.
\<close>

theorem hash_present_iff_payload_present:
  assumes "reachable d" and "row \<in> set (fingerprints d)"
  shows "(hash row \<noteq> None) = (nuclear_data row \<noteq> None)"
  using reachable_paired [OF assms(1)] assms(2) by (auto simp: list_all_iff paired_def)

theorem hash_present_iff_payload_present_witness:
  "reachable tracked_db \<and> hd (fingerprints tracked_db) \<in> set (fingerprints tracked_db) \<and>
   hash (hd (fingerprints tracked_db)) \<noteq> None \<and>
   nuclear_data (hd (fingerprints tracked_db)) \<noteq> None"
proof -
  have e: "hd (fingerprints tracked_db) \<in> set (fingerprints tracked_db)"
    by (simp add: tracked_db_eq)
  have h: "hash (hd (fingerprints tracked_db)) \<noteq> None"
    by (simp add: tracked_db_eq JSON_stringify_def combined_def)
  from hash_present_iff_payload_present [OF reachable_tracked e] e h reachable_tracked
  show ?thesis by simp
qed

subsection \<open>A URL that is already stored\<close>

text \<open>
  Claim C10. When the URL of \<open>POST /api/create\<close> is the target of a stored link (and the
  lookup by URL runs), the answer is the code of a link stored for that URL, flagged
  \<open>existing\<close>, and the database is as it was. The custom code plays no part: whatever
  \<open>customCode\<close> the body carries, missing, taken or malformed, the answer is the same.
\<close>

theorem create_existing_url_ignores_custom_code:
  assumes "reachable d" and "lnk \<in> set (links d)" and "url r = Some (target_url lnk)"
    and "\<not> url_lookup_fails r"
  shows "\<exists>l \<in> set (links d). target_url l = target_url lnk \<and>
           (\<forall>c. post_api_create d (r\<lparr>customCode := c\<rparr>) =
             (d, Json 200 (JObj [(''code'', JStr (short_code l)), (''existing'', JBool True)])))"
proof -
  from reachable_urls [OF assms(1)] assms(2) have ne: "target_url lnk \<noteq> []"
    by (auto simp: list_all_iff)
  from assms(2) have "list_ex (\<lambda>l. target_url l = target_url lnk) (links d)"
    by (auto simp: list_ex_iff)
  then obtain l where l: "find (\<lambda>l. target_url l = target_url lnk) (links d) = Some l"
    using find_None_iff_none [of "\<lambda>l. target_url l = target_url lnk" "links d"] by auto
  from find_Some_mem [OF l] have "l \<in> set (links d)" "target_url l = target_url lnk" by auto
  moreover have "post_api_create d (r\<lparr>customCode := c\<rparr>) =
             (d, Json 200 (JObj [(''code'', JStr (short_code l)), (''existing'', JBool True)]))"
    for c
    using assms(3,4) ne l by (simp add: post_api_create_def truthy_def)
  ultimately show ?thesis by blast
qed

theorem create_existing_url_ignores_custom_code_witness:
  "reachable linked_db \<and> hd (links linked_db) \<in> set (links linked_db) \<and>
   url example_create = Some (target_url (hd (links linked_db))) \<and>
   \<not> url_lookup_fails example_create \<and>
   post_api_create linked_db (example_create\<lparr>customCode := Some ''#''\<rparr>) =
     (linked_db, Json 200 (JObj [(''code'', JStr ''abc123''), (''existing'', JBool True)])) \<and>
   \<not> valid_custom_code ''#''"
proof -
  have a: "hd (links linked_db) \<in> set (links linked_db)" by (simp add: linked_db_eq)
  have b: "url example_create = Some (target_url (hd (links linked_db)))"
    by (simp add: linked_db_eq example_create_def)
  have c: "\<not> url_lookup_fails example_create" by (simp add: example_create_def)
  from create_existing_url_ignores_custom_code [OF reachable_linked a b c]
  have "post_api_create linked_db (example_create\<lparr>customCode := Some ''#''\<rparr>) =
     (linked_db, Json 200 (JObj [(''code'', JStr ''abc123''), (''existing'', JBool True)]))"
    by (auto simp: linked_db_eq)
  with reachable_linked a b c show ?thesis by (simp add: valid_custom_code_def)
qed

section \<open>Properties of the collector\<close>

subsection \<open>Auxiliary facts: outcomes\<close>

lemma then_do_simps [simp]:
  "then_do (Ok v) f = f v" "then_do (Err e) f = Err e" "then_do Hang f = Hang"
  by (simp_all add: then_do_def)

lemma try_catch_simps [simp]:
  "try_catch (Ok v) h = Ok v" "try_catch (Err e) h = h e" "try_catch Hang h = Hang"
  by (simp_all add: try_catch_def)

lemma ret_simps [simp]: "ret (Returns v) = Ok v" "ret (Throws e) = Err e"
  by (simp_all add: ret_def)

lemma ret_not_Hang [simp]: "ret c \<noteq> Hang"
  by (cases c) simp_all

lemma then_do_Hang_iff: "(then_do m f = Hang) = (m = Hang \<or> (\<exists>v. m = Ok v \<and> f v = Hang))"
  by (cases m) simp_all

lemma resolves_simps [simp]: "resolves (Ok v)" "\<not> resolves (Err e)" "\<not> resolves Hang"
  by (simp_all add: resolves_def)

lemma guarded_resolves: "m \<noteq> Hang \<Longrightarrow> resolves (try_catch m (\<lambda>e. Ok v))"
  by (cases m) simp_all

lemma getGPUInfo_resolves: "resolves (getGPUInfo b)"
  unfolding getGPUInfo_def
  by (rule guarded_resolves) (auto simp: then_do_Hang_iff split: option.splits)

lemma getCanvasFingerprint_resolves: "resolves (getCanvasFingerprint b)"
  unfolding getCanvasFingerprint_def
  by (rule guarded_resolves) (auto simp: then_do_Hang_iff split: option.splits)

lemma getWebGLFingerprint_resolves: "resolves (getWebGLFingerprint b)"
  unfolding getWebGLFingerprint_def
  by (rule guarded_resolves) (auto simp: then_do_Hang_iff split: option.splits)

lemma getWebGL2Info_resolves: "resolves (getWebGL2Info b)"
  unfolding getWebGL2Info_def
  by (rule guarded_resolves) (auto simp: then_do_Hang_iff split: option.splits)

lemma getVideoCapabilities_resolves: "resolves (getVideoCapabilities b)"
  unfolding getVideoCapabilities_def
  by (rule guarded_resolves) (auto simp: then_do_Hang_iff split: option.splits)

text \<open>The probes that await a promise of the browser.\<close>

lemma promise_cases:
  obtains "p = None" | "p = Some Hang" | e where "p = Some (Err e)" | v where "p = Some (Ok v)"
  by (metis option.exhaust res.exhaust)

lemma getBatteryInfo_either:
  "(getBattery b = Some Hang \<and> getBatteryInfo b = Hang) \<or>
   (getBattery b \<noteq> Some Hang \<and> (\<exists>v. getBatteryInfo b = Ok v))"
  by (cases "getBattery b" rule: promise_cases) (simp_all add: getBatteryInfo_def)

lemma getStorageInfo_either:
  "(storage_estimate b = Some Hang \<and> getStorageInfo b = Hang) \<or>
   (storage_estimate b \<noteq> Some Hang \<and> (\<exists>v. getStorageInfo b = Ok v))"
  by (cases "storage_estimate b" rule: promise_cases) (simp_all add: getStorageInfo_def)

lemma getMediaDevices_either:
  "(enumerateDevices b = Some Hang \<and> getMediaDevices b = Hang) \<or>
   (enumerateDevices b \<noteq> Some Hang \<and> (\<exists>v. getMediaDevices b = Ok v))"
  by (cases "enumerateDevices b" rule: promise_cases)
     (simp_all add: getMediaDevices_def split: json.splits)

lemma getSensorData_either:
  "((sensor b ''Accelerometer'' = Some Hang \<or> sensor b ''Gyroscope'' = Some Hang) \<and>
      getSensorData b = Hang) \<or>
   (sensor b ''Accelerometer'' \<noteq> Some Hang \<and> sensor b ''Gyroscope'' \<noteq> Some Hang \<and>
      (\<exists>v. getSensorData b = Ok v))"
  by (cases "sensor b ''Accelerometer''" rule: promise_cases;
      cases "sensor b ''Gyroscope''" rule: promise_cases)
     (simp_all add: getSensorData_def)

text \<open>A rejected promise of a guarded probe is a null leaf.\<close>

lemma rejected_leaves:
  "getBattery b = Some (Err e) \<Longrightarrow> getBatteryInfo b = Ok JNull"
  "storage_estimate b = Some (Err e) \<Longrightarrow> getStorageInfo b = Ok JNull"
  "enumerateDevices b = Some (Err e) \<Longrightarrow> getMediaDevices b = Ok JNull"
  by (simp_all add: getBatteryInfo_def getStorageInfo_def getMediaDevices_def)

lemma getHardwareData_cases:
  "(pending b \<and> getHardwareData b = Hang) \<or>
   (\<not> pending b \<and>
      (\<exists>gpu battery storage mediaDevices sensors.
         getBatteryInfo b = Ok battery \<and> getStorageInfo b = Ok storage \<and>
         getMediaDevices b = Ok mediaDevices \<and>
         getHardwareData b =
           Ok (JObj [(''gpu'', gpu),
                   (''cpu'', JObj [(''cores'', property b ''navigator.hardwareConcurrency''),
                                   (''architecture'', detectCPUArchitecture b),
                                   (''endianness'', detectEndianness b)]),
                   (''battery'', battery), (''storage'', storage),
                   (''mediaDevices'', mediaDevices), (''sensors'', sensors)])))"
proof -
  obtain gpu where gpu: "getGPUInfo b = Ok gpu"
    using getGPUInfo_resolves [of b] by (auto simp: resolves_def)
  show ?thesis
    using getBatteryInfo_either [of b] getStorageInfo_either [of b] getMediaDevices_either [of b]
      getSensorData_either [of b]
    by (elim disjE conjE exE) (simp_all add: getHardwareData_def gpu pending_def Let_def)
qed

lemma getGraphicsData_cases:
  "getGraphicsData b \<noteq> Hang \<and>
   (getGraphicsData b = Err e) = (\<not> document_body b \<and> e = TypeError) \<and>
   (\<forall>g. getGraphicsData b = Ok g \<longrightarrow> (\<exists>gs. g = JObj gs))"
proof -
  obtain canvas webgl webgl2 video where
    "getCanvasFingerprint b = Ok canvas" "getWebGLFingerprint b = Ok webgl"
    "getWebGL2Info b = Ok webgl2" "getVideoCapabilities b = Ok video"
    using getCanvasFingerprint_resolves [of b] getWebGLFingerprint_resolves [of b]
      getWebGL2Info_resolves [of b] getVideoCapabilities_resolves [of b]
    by (auto simp: resolves_def)
  then show ?thesis
    by (auto simp: getGraphicsData_def getFontList_def)
qed


lemma collectAllData_cases:
  "(\<exists>e. timeZone b = Throws e \<and> collectAllData b = Err e) \<or>
   (\<exists>tz. timeZone b = Returns tz \<and> pending b \<and> collectAllData b = Hang) \<or>
   (\<exists>tz. timeZone b = Returns tz \<and> \<not> pending b \<and> \<not> document_body b \<and>
      collectAllData b = Err TypeError) \<or>
   (\<exists>tz. timeZone b = Returns tz \<and> \<not> pending b \<and> document_body b \<and>
      (\<exists>bs hs gs vs battery storage mediaDevices.
         getBatteryInfo b = Ok battery \<and> getStorageInfo b = Ok storage \<and>
         getMediaDevices b = Ok mediaDevices \<and>
         map_of hs ''battery'' = Some battery \<and> map_of hs ''storage'' = Some storage \<and>
         map_of hs ''mediaDevices'' = Some mediaDevices \<and>
         collectAllData b =
           Ok (JObj [(''basic'', JObj bs), (''hardware'', JObj hs), (''graphics'', JObj gs),
                     (''behavior'', JObj vs), (''timestamp'', JStr (toISOString b))])))"
proof (cases "timeZone b")
  case (Throws e)
  then show ?thesis by (simp add: collectAllData_def getBasicData_def)
next
  case (Returns tz)
  then obtain bs where basic: "getBasicData b = Ok (JObj bs)"
    by (simp add: getBasicData_def)
  show ?thesis
  proof (cases "pending b")
    case True
    with getHardwareData_cases [of b] have "getHardwareData b = Hang" by auto
    with Returns True basic show ?thesis by (simp add: collectAllData_def)
  next
    case False
    with getHardwareData_cases [of b] obtain hs battery storage mediaDevices where
      hw: "getHardwareData b = Ok (JObj hs)" "getBatteryInfo b = Ok battery"
        "getStorageInfo b = Ok storage" "getMediaDevices b = Ok mediaDevices"
        "map_of hs ''battery'' = Some battery" "map_of hs ''storage'' = Some storage"
        "map_of hs ''mediaDevices'' = Some mediaDevices"
      by auto
    show ?thesis
    proof (cases "document_body b")
      case True
      with getGraphicsData_cases [of b] obtain gs where "getGraphicsData b = Ok (JObj gs)"
        by (cases "getGraphicsData b") auto
      with Returns False True basic hw show ?thesis
        by (simp add: collectAllData_def behavior_object_def)
    next
      case body: False
      with getGraphicsData_cases [of b TypeError] have "getGraphicsData b = Err TypeError"
        by simp
      with Returns False body basic hw show ?thesis by (simp add: collectAllData_def)
    qed
  qed
qed

lemma then_run_simps [simp]:
  "then_run (tr, Ok v) f = (tr @ fst (f v), snd (f v))"
  "then_run (tr, Err e) f = (tr, Err e)"
  "then_run (tr, Hang) f = (tr, Hang)"
  by (simp_all add: then_run_def)

lemma catch_run_simps [simp]:
  "catch_run (tr, Ok v) h = (tr, Ok v)"
  "catch_run (tr, Err e) h = (tr @ fst (h e), snd (h e))"
  "catch_run (tr, Hang) h = (tr, Hang)"
  by (simp_all add: catch_run_def)

lemma finally_run_simps [simp]:
  "finally_run (tr, Hang) c = (tr, Hang)"
  "finally_run (tr, Ok v) (tr', Ok w) = (tr @ tr', Ok v)"
  "finally_run (tr, Err e) (tr', Ok w) = (tr @ tr', Err e)"
  by (simp_all add: finally_run_def)

lemma boot_cases:
  "collectAllData b = Hang \<Longrightarrow> boot b = ([], Hang)"
  "collectAllData b = Err e \<Longrightarrow>
     boot b = ([console_error ''Tracking error:'' e, Navigate (TARGET_URL b)], Ok ())"
  "collectAllData b = Ok p \<Longrightarrow> track_response b = Ok r \<Longrightarrow>
     boot b = ([Fetch ''/api/track'' (JSON_stringify (delivery b (with_meta b p))),
                Navigate (TARGET_URL b)], Ok ())"
  "collectAllData b = Ok p \<Longrightarrow> track_response b = Err e \<Longrightarrow>
     boot b = ([Fetch ''/api/track'' (JSON_stringify (delivery b (with_meta b p))),
                console_error ''Tracking error:'' e, Navigate (TARGET_URL b)], Ok ())"
  "collectAllData b = Ok p \<Longrightarrow> track_response b = Hang \<Longrightarrow>
     boot b = ([Fetch ''/api/track'' (JSON_stringify (delivery b (with_meta b p)))], Hang)"
  by (simp_all add: boot_def await_def emit_def Let_def)

text \<open>A run comes to an end unless it waits for ever for the collection or for the
  request.\<close>

lemma boot_exits_iff:
  "(snd (boot b) \<noteq> Hang) =
     (collectAllData b \<noteq> Hang \<and>
      ((\<exists>p. collectAllData b = Ok p) \<longrightarrow> track_response b \<noteq> Hang))"
proof (cases "collectAllData b")
  case (Ok p)
  then show ?thesis using boot_cases(3,4,5) [OF Ok] by (cases "track_response b") auto
qed (simp_all add: boot_cases)

subsection \<open>Auxiliary facts: the listeners\<close>

lemma samples_snoc: "samples b now k (evs @ [x]) = samples b now k evs @ sample b now k x"
  by (simp add: samples_def)

lemma sample_length: "length (sample b now k x) \<le> 1"
  by (simp add: sample_def split: event.splits)

lemma sorted_before:
  assumes "sorted (map fst (evs @ [x]))"
  shows "filter (before due) (evs @ [x]) =
           filter (before due) evs @ (if before due x then [x] else [])"
    and "list_all (before due) (evs @ [x]) = (list_all (before due) evs \<and> before due x)"
    and "before due x \<Longrightarrow> list_all (before due) evs"
  using assms by (auto simp: sorted_append before_def list_all_iff)

lemma run_snoc: "run b (evs @ [x]) p = dispatch b (run b evs p) x"
  by (simp add: run_def)

lemma registered:
  "getBehaviorData b now blank =
     \<lparr>listeners = (if ontouchstart b then [Touchstart] else []) @ [Keydown, Scroll, Mousemove],
      timers = [(now + 1000, Scroll), (now + 1000, Keydown)] @
               (if ontouchstart b then [(now + 1000, Touchstart)] else []),
      movements = [], mouse_startTime = timeOrigin b + int now, pattern = [], strokes = [],
      touches = (if ontouchstart b then Some [] else None)\<rparr>"
  by (simp add: getBehaviorData_def captureTouchEvents_def captureKeystrokes_def
      captureScrollPattern_def captureMouseMovements_def blank_def)

lemma run_state:
  assumes "sorted (map fst evs)"
  shows "run b evs (getBehaviorData b now blank) =
     \<lparr>listeners =
        (if list_all (before (now + 1000)) evs
         then (if ontouchstart b then [Touchstart] else []) @ [Keydown, Scroll] else []) @
        (if length (samples b now Mousemove evs) < 50 then [Mousemove] else []),
      timers =
        (if list_all (before (now + 1000)) evs
         then [(now + 1000, Scroll), (now + 1000, Keydown)] @
              (if ontouchstart b then [(now + 1000, Touchstart)] else [])
         else []),
      movements = take 50 (samples b now Mousemove evs),
      mouse_startTime = timeOrigin b + int now,
      pattern = samples b now Scroll (filter (before (now + 1000)) evs),
      strokes = samples b now Keydown (filter (before (now + 1000)) evs),
      touches = (if ontouchstart b
                 then Some (samples b now Touchstart (filter (before (now + 1000)) evs))
                 else None)\<rparr>"
  using assms
proof (induction evs rule: rev_induct)
  case Nil
  show ?case by (simp add: run_def registered samples_def)
next
  case (snoc x evs)
  from snoc.prems have sorted: "sorted (map fst evs)" by (simp add: sorted_append)
  note st = snoc.IH [OF sorted]
  note sb = sorted_before [OF snoc.prems, of "now + 1000"]
  obtain t e where x: "x = (t, e)" by (cases x)
  show ?case
  proof (cases "list_all (before (now + 1000)) evs")
    case early: True
    show ?thesis
    proof (cases "before (now + 1000) x")
      case True
      with early x sample_length [of b now Mousemove x] show ?thesis
        apply (simp add: run_snoc st sb dispatch_def fire_def samples_snoc)
        apply (cases e)
        apply (auto simp: handler_def sample_def before_def Let_def samples_def)
        done
    next
      case False
      with early x sample_length [of b now Mousemove x] show ?thesis
        apply (simp add: run_snoc st sb dispatch_def fire_def samples_snoc)
        apply (cases e)
        apply (auto simp: handler_def sample_def before_def Let_def samples_def)
        done
    qed
  next
    case late: False
    with sb(3) have nb: "\<not> before (now + 1000) x" by blast
    with late x sample_length [of b now Mousemove x] show ?thesis
      apply (simp add: run_snoc st sb dispatch_def fire_def samples_snoc)
      apply (cases e)
      apply (auto simp: handler_def sample_def before_def Let_def samples_def)
      done
  qed
qed

subsection \<open>Auxiliary facts: the four pages\<close>

lemmas probe_defs =
  collectAllData_def getBasicData_def getHardwareData_def getGPUInfo_def
  detectCPUArchitecture_def detectEndianness_def getBatteryInfo_def getStorageInfo_def
  getMediaDevices_def getSensorData_def getGraphicsData_def getCanvasFingerprint_def
  getWebGLFingerprint_def getWebGL2Info_def getVideoCapabilities_def getFontList_def
  getCSSFeatures_def behavior_object_def registered js_truthy_def

lemma collect_head_page: "collectAllData head_page = Err TypeError"
  by (simp add: probe_defs head_page_def Let_def)

lemma collect_body_page: "collectAllData body_page = Ok body_page_data"
  by (simp add: probe_defs body_page_def head_page_def body_page_data_def Let_def)

lemma collect_silent_sink: "collectAllData silent_sink = Ok body_page_data"
  by (simp add: probe_defs silent_sink_def body_page_def head_page_def body_page_data_def Let_def)

lemma collect_denied_page: "collectAllData denied_page = Ok body_page_data"
  by (simp add: probe_defs denied_page_def body_page_def head_page_def body_page_data_def Let_def)

lemma collect_refusing_sink: "collectAllData refusing_sink = Ok body_page_data"
  by (simp add: probe_defs refusing_sink_def body_page_def head_page_def body_page_data_def
      Let_def)

lemma collect_mute_sensor: "collectAllData mute_sensor = Hang"
  by (simp add: probe_defs mute_sensor_def body_page_def head_page_def Let_def)

lemma refusing_sink_facts:
  "TARGET_URL refusing_sink = ''https://example.com''"
  "track_response refusing_sink = Err (JStr ''TypeError: Failed to fetch'')"
  by (simp_all add: refusing_sink_def body_page_def head_page_def)

lemma page_urls:
  "TARGET_URL head_page = ''https://example.com''"
  "TARGET_URL body_page = ''https://example.com''"
  "TARGET_URL silent_sink = ''https://example.com''"
  by (simp_all add: silent_sink_def body_page_def head_page_def)

subsection \<open>Navigation on every exit\<close>

text \<open>
  The navigation is the \<open>finally\<close> block of the boot script, and a \<open>finally\<close> block runs
  when the \<open>try\<close> block is left. A run that waits for ever inside it never navigates: in
  the browser whose accelerometer never reports, the collection stays pending and the run
  does nothing at all; on the page whose sink never answers, the request is sent and that
  is the whole run.
\<close>

theorem unsettled_runs_never_navigate:
  "boot mute_sensor = ([], Hang) \<and>
   boot silent_sink =
     ([Fetch ''/api/track''
         (JSON_stringify (delivery silent_sink (with_meta silent_sink body_page_data)))],
      Hang)"
  using boot_cases(1) [OF collect_mute_sensor] boot_cases(5) [OF collect_silent_sink]
  by (simp add: silent_sink_def)

text \<open>
  Claim C1, amended. Every run of the boot script in which the collection settles and, if
  it resolved, the request to \<open>/api/track\<close> settles, ends with the navigation to the
  embedded target URL, performed once, as its last effect: when the collection resolved
  and the request was answered, with whatever status; when a probe threw and the
  collection was rejected; and when the request was rejected. The two hypotheses say that
  the run leaves the \<open>try\<close> block (\<open>boot_exits_iff\<close>).
\<close>

theorem boot_navigates_on_every_exit:
  assumes "collectAllData b \<noteq> Hang"
    and "(\<exists>p. collectAllData b = Ok p) \<longrightarrow> track_response b \<noteq> Hang"
  shows "snd (boot b) = Ok () \<and>
         (\<exists>tr. fst (boot b) = tr @ [Navigate (TARGET_URL b)] \<and>
               Navigate (TARGET_URL b) \<notin> set tr)"
proof (cases "collectAllData b")
  case (Ok p)
  with assms(2) have "track_response b \<noteq> Hang" by blast
  then show ?thesis using boot_cases(3,4) [OF Ok] by (cases "track_response b") auto
next
  case (Err e)
  then show ?thesis by (simp add: boot_cases)
next
  case Hang
  with assms(1) show ?thesis by simp
qed

text \<open>The three exits: collected and delivered; a probe threw; the request was rejected.\<close>

theorem boot_navigates_on_every_exit_witness:
  "(collectAllData body_page = Ok body_page_data \<and> track_response body_page \<noteq> Hang \<and>
    snd (boot body_page) = Ok () \<and>
    (\<exists>tr. fst (boot body_page) = tr @ [Navigate ''https://example.com''] \<and>
          Navigate ''https://example.com'' \<notin> set tr)) \<and>
   (collectAllData head_page = Err TypeError \<and>
    snd (boot head_page) = Ok () \<and>
    (\<exists>tr. fst (boot head_page) = tr @ [Navigate ''https://example.com''] \<and>
          Navigate ''https://example.com'' \<notin> set tr)) \<and>
   (collectAllData refusing_sink = Ok body_page_data \<and>
    track_response refusing_sink = Err (JStr ''TypeError: Failed to fetch'') \<and>
    snd (boot refusing_sink) = Ok () \<and>
    (\<exists>tr. fst (boot refusing_sink) = tr @ [Navigate ''https://example.com''] \<and>
          Navigate ''https://example.com'' \<notin> set tr))"
proof -
  have a1: "collectAllData body_page \<noteq> Hang" by (simp add: collect_body_page)
  have t1: "track_response body_page \<noteq> Hang" by (simp add: body_page_def head_page_def)
  then have b1: "(\<exists>p. collectAllData body_page = Ok p) \<longrightarrow> track_response body_page \<noteq> Hang"
    by simp
  have a2: "collectAllData head_page \<noteq> Hang" by (simp add: collect_head_page)
  have b2: "(\<exists>p. collectAllData head_page = Ok p) \<longrightarrow> track_response head_page \<noteq> Hang"
    by (simp add: collect_head_page)
  have a3: "collectAllData refusing_sink \<noteq> Hang" by (simp add: collect_refusing_sink)
  have b3: "(\<exists>p. collectAllData refusing_sink = Ok p) \<longrightarrow> track_response refusing_sink \<noteq> Hang"
    by (simp add: refusing_sink_facts)
  from boot_navigates_on_every_exit [OF a1 b1] collect_body_page t1
  have one: "collectAllData body_page = Ok body_page_data \<and> track_response body_page \<noteq> Hang \<and>
    snd (boot body_page) = Ok () \<and>
    (\<exists>tr. fst (boot body_page) = tr @ [Navigate ''https://example.com''] \<and>
          Navigate ''https://example.com'' \<notin> set tr)"
    by (simp add: page_urls)
  from boot_navigates_on_every_exit [OF a2 b2] collect_head_page
  have two: "collectAllData head_page = Err TypeError \<and>
    snd (boot head_page) = Ok () \<and>
    (\<exists>tr. fst (boot head_page) = tr @ [Navigate ''https://example.com''] \<and>
          Navigate ''https://example.com'' \<notin> set tr)"
    by (simp add: page_urls)
  from boot_navigates_on_every_exit [OF a3 b3] collect_refusing_sink
  have three: "collectAllData refusing_sink = Ok body_page_data \<and>
    track_response refusing_sink = Err (JStr ''TypeError: Failed to fetch'') \<and>
    snd (boot refusing_sink) = Ok () \<and>
    (\<exists>tr. fst (boot refusing_sink) = tr @ [Navigate ''https://example.com''] \<and>
          Navigate ''https://example.com'' \<notin> set tr)"
    by (simp add: refusing_sink_facts)
  from one two three show ?thesis by blast
qed

subsection \<open>Navigation and delivery\<close>

text \<open>
  The boot script awaits the request before it leaves the \<open>try\<close> block. On the page whose
  sink never answers, the request is sent and the navigation never happens.
\<close>

theorem silent_sink_blocks_navigation:
  "Navigate (TARGET_URL silent_sink) \<notin> set (fst (boot silent_sink)) \<and>
   snd (boot silent_sink) = Hang"
  using boot_cases(5) [OF collect_silent_sink] by (simp add: silent_sink_def)

text \<open>
  Claim C2, amended. Once the collection has resolved, the boot script sends the request to
  \<open>/api/track\<close> first and navigates when that request has settled, fulfilled or rejected:
  the navigation happens if and only if the request settles.
\<close>

theorem navigation_waits_for_delivery:
  assumes "collectAllData b = Ok p"
  shows "(Navigate (TARGET_URL b) \<in> set (fst (boot b))) = (track_response b \<noteq> Hang) \<and>
         (\<exists>rest. fst (boot b) =
            Fetch ''/api/track'' (JSON_stringify (delivery b (with_meta b p))) # rest)"
  using boot_cases(3,4,5) [OF assms] by (cases "track_response b") auto

theorem navigation_waits_for_delivery_witness:
  "collectAllData body_page = Ok body_page_data \<and>
   Navigate ''https://example.com'' \<in> set (fst (boot body_page)) \<and>
   track_response body_page \<noteq> Hang \<and>
   (\<exists>rest. fst (boot body_page) =
      Fetch ''/api/track''
        (JSON_stringify (delivery body_page (with_meta body_page body_page_data))) # rest)"
proof -
  have "track_response body_page \<noteq> Hang" by (simp add: body_page_def head_page_def)
  with navigation_waits_for_delivery [OF collect_body_page] collect_body_page
  show ?thesis by (simp add: page_urls)
qed

subsection \<open>The collection resolves or rejects\<close>

text \<open>
  Nothing in \<open>collectAllData\<close> catches what a group throws. On the page whose body does not
  exist yet the font probe throws, and the collection is rejected.
\<close>

theorem collection_rejects_without_body:
  "collectAllData head_page = Err TypeError"
  by (simp add: probe_defs head_page_def Let_def)

text \<open>
  Claim C6, amended. The collection resolves exactly when the time-zone read of the basic
  group returns, no promise the hardware group awaits stays pending, and \<open>document.body\<close>
  exists for the font probe; it is rejected exactly when the time-zone read throws or,
  nothing staying pending, the body is missing. A payload it resolves with holds each of
  the four groups as an object, never null; a rejected battery, storage or media promise
  is a null leaf inside the hardware group.
\<close>

theorem collection_resolves_or_rejects:
  "((\<exists>q. collectAllData b = Ok q) =
      ((\<exists>tz. timeZone b = Returns tz) \<and> \<not> pending b \<and> document_body b)) \<and>
   ((\<exists>e. collectAllData b = Err e) =
      ((\<exists>e. timeZone b = Throws e) \<or> (\<not> pending b \<and> \<not> document_body b))) \<and>
   (collectAllData b = Ok p \<longrightarrow>
      (\<exists>bs hs gs vs.
         p = JObj [(''basic'', JObj bs), (''hardware'', JObj hs), (''graphics'', JObj gs),
                   (''behavior'', JObj vs), (''timestamp'', JStr (toISOString b))]) \<and>
      ((\<exists>e. getBattery b = Some (Err e)) \<longrightarrow> field (field p ''hardware'') ''battery'' = JNull) \<and>
      ((\<exists>e. storage_estimate b = Some (Err e)) \<longrightarrow>
         field (field p ''hardware'') ''storage'' = JNull) \<and>
      ((\<exists>e. enumerateDevices b = Some (Err e)) \<longrightarrow>
         field (field p ''hardware'') ''mediaDevices'' = JNull))"
  using collectAllData_cases [of b] rejected_leaves [of b]
  by (elim disjE exE conjE) (auto simp: field_def)

theorem collection_resolves_or_rejects_witness:
  "collectAllData denied_page = Ok body_page_data \<and>
   (\<exists>e. getBattery denied_page = Some (Err e)) \<and>
   (\<exists>tz. timeZone denied_page = Returns tz) \<and> \<not> pending denied_page \<and>
   document_body denied_page \<and>
   field (field body_page_data ''hardware'') ''battery'' = JNull \<and>
   (\<exists>bs hs gs vs.
      body_page_data =
        JObj [(''basic'', JObj bs), (''hardware'', JObj hs), (''graphics'', JObj gs),
              (''behavior'', JObj vs), (''timestamp'', JStr (toISOString denied_page))])"
proof -
  have a: "\<exists>e. getBattery denied_page = Some (Err e)" by (simp add: denied_page_def)
  from collection_resolves_or_rejects [of denied_page body_page_data] collect_denied_page a
  show ?thesis by auto
qed

subsection \<open>The collection time\<close>

text \<open>
  \<open>meta\<close> is added by the boot script to a payload that was collected. On the page whose
  body does not exist yet nothing was collected: the run logs the error and navigates, and
  no payload, with or without \<open>meta\<close>, is produced or sent.
\<close>

theorem no_payload_without_body:
  "fst (boot head_page) =
     [console_error ''Tracking error:'' TypeError, Navigate ''https://example.com'']"
  using boot_cases(2) [OF collect_head_page] by (simp add: page_urls)

text \<open>
  Claim C9, amended. Whenever the collection resolves, the payload the boot script sends
  carries, as \<open>nuclearData.meta.collectionTime\<close>, the reading of the clock after the
  collection minus the reading before it, in milliseconds; the clock being monotonic, that
  is at least zero. (When a group throws there is no payload.)
\<close>

theorem sent_payload_has_collection_time:
  assumes "collectAllData b = Ok p" and "started b \<le> collected b"
  shows "(\<exists>rest. fst (boot b) =
            Fetch ''/api/track'' (JSON_stringify (delivery b (with_meta b p))) # rest) \<and>
         field (field (field (delivery b (with_meta b p)) ''nuclearData'') ''meta'')
           ''collectionTime'' = JNum (int (collected b) - int (started b)) \<and>
         0 \<le> int (collected b) - int (started b)"
proof -
  from collectAllData_cases [of b] assms(1) obtain bs hs gs vs where
    p: "p = JObj [(''basic'', JObj bs), (''hardware'', JObj hs), (''graphics'', JObj gs),
                  (''behavior'', JObj vs), (''timestamp'', JStr (toISOString b))]"
    by auto
  have "\<exists>rest. fst (boot b) =
            Fetch ''/api/track'' (JSON_stringify (delivery b (with_meta b p))) # rest"
    using boot_cases(3,4,5) [OF assms(1)] by (cases "track_response b") auto
  moreover have "field (field (field (delivery b (with_meta b p)) ''nuclearData'') ''meta'')
           ''collectionTime'' = JNum (int (collected b) - int (started b))"
    by (simp add: p delivery_def with_meta_def put_def field_def)
  ultimately show ?thesis using assms(2) by simp
qed

theorem sent_payload_has_collection_time_witness:
  "collectAllData body_page = Ok body_page_data \<and> started body_page \<le> collected body_page \<and>
   (\<exists>rest. fst (boot body_page) =
      Fetch ''/api/track''
        (JSON_stringify (delivery body_page (with_meta body_page body_page_data))) # rest) \<and>
   field (field (field (delivery body_page (with_meta body_page body_page_data))
     ''nuclearData'') ''meta'') ''collectionTime'' = JNum 3"
proof -
  have a: "started body_page \<le> collected body_page" by (simp add: body_page_def head_page_def)
  from sent_payload_has_collection_time [OF collect_body_page a] collect_body_page a
  show ?thesis by (simp add: body_page_def head_page_def)
qed

subsection \<open>The bounds of the behavioural listeners\<close>

text \<open>
  The pointer listener has no timer. Five seconds after its registration, with one pointer
  event in all, it records the event and stays registered.
\<close>

theorem pointer_listener_outlives_window:
  "movements (run head_page [(5000, MouseMove (JNum 1) (JNum 2))]
               (getBehaviorData head_page 0 blank)) =
     [JObj [(''x'', JNum 1), (''y'', JNum 2), (''t'', JNum 5000)]] \<and>
   Mousemove \<in> set (listeners (run head_page [(5000, MouseMove (JNum 1) (JNum 2))]
                               (getBehaviorData head_page 0 blank)))"
  by (simp add: run_state samples_def sample_def)

text \<open>
  Claim C7, amended. Each behavioural listener has one bound. The pointer listener removes
  itself at its fiftieth sample and has no time window: it records the first fifty pointer
  events, whenever they come. The scroll, keystroke and touch listeners are removed by a
  timer of 1000 ms and have no sample ceiling: each records every event of its kind
  dispatched less than 1000 ms after the registration, however many, and none after. Seen
  at a time \<open>T\<close> not before the last event, the pointer listener is registered if and only
  if fewer than fifty pointer events came, the other three if and only if \<open>T\<close> is less
  than 1000 ms after the registration (the touch listener only where touch exists).
\<close>

theorem listeners_have_one_bound_each:
  assumes "sorted (map fst evs)" and "list_all (\<lambda>te. fst te \<le> T) evs"
  shows "movements (run b evs (getBehaviorData b now blank)) =
           take 50 (samples b now Mousemove evs) \<and>
         pattern (run b evs (getBehaviorData b now blank)) =
           samples b now Scroll (filter (before (now + 1000)) evs) \<and>
         strokes (run b evs (getBehaviorData b now blank)) =
           samples b now Keydown (filter (before (now + 1000)) evs) \<and>
         touches (run b evs (getBehaviorData b now blank)) =
           (if ontouchstart b
            then Some (samples b now Touchstart (filter (before (now + 1000)) evs))
            else None) \<and>
         set (listeners (fire T (run b evs (getBehaviorData b now blank)))) =
           (if length (samples b now Mousemove evs) < 50 then {Mousemove} else {}) \<union>
           (if T < now + 1000
            then {Keydown, Scroll} \<union> (if ontouchstart b then {Touchstart} else {})
            else {})"
proof -
  have "T < now + 1000 \<Longrightarrow> list_all (before (now + 1000)) evs"
    using assms(2) by (auto simp: list_all_iff before_def)
  then show ?thesis
    by (auto simp: run_state [OF assms(1)] fire_def)
qed

theorem listeners_have_one_bound_each_witness:
  "sorted (map fst [(100 :: nat, ScrollTo (JNum 5)), (5000, MouseMove (JNum 1) (JNum 2)),
                    (5000, ScrollTo (JNum 9))]) \<and>
   list_all (\<lambda>te. fst te \<le> 5000)
     [(100 :: nat, ScrollTo (JNum 5)), (5000, MouseMove (JNum 1) (JNum 2)),
      (5000, ScrollTo (JNum 9))] \<and>
   movements (run head_page [(100, ScrollTo (JNum 5)), (5000, MouseMove (JNum 1) (JNum 2)),
                             (5000, ScrollTo (JNum 9))] (getBehaviorData head_page 0 blank)) =
     [JObj [(''x'', JNum 1), (''y'', JNum 2), (''t'', JNum 5000)]] \<and>
   pattern (run head_page [(100, ScrollTo (JNum 5)), (5000, MouseMove (JNum 1) (JNum 2)),
                           (5000, ScrollTo (JNum 9))] (getBehaviorData head_page 0 blank)) =
     [JObj [(''y'', JNum 5), (''t'', JNum 1700000000100)]] \<and>
   set (listeners (fire 5000
     (run head_page [(100, ScrollTo (JNum 5)), (5000, MouseMove (JNum 1) (JNum 2)),
                     (5000, ScrollTo (JNum 9))] (getBehaviorData head_page 0 blank)))) =
     {Mousemove}"
proof -
  let ?evs = "[(100 :: nat, ScrollTo (JNum 5)), (5000, MouseMove (JNum 1) (JNum 2)),
               (5000, ScrollTo (JNum 9))]"
  have a: "sorted (map fst ?evs)" by simp
  have b: "list_all (\<lambda>te. fst te \<le> 5000) ?evs" by simp
  from listeners_have_one_bound_each [OF a b, of head_page 0] a b show ?thesis
    by (simp add: samples_def sample_def before_def head_page_def)
qed

end
